theory Spec2Isabelle
  imports Main
begin

section \<open>Schema\<close>

text \<open>
  The tables of the schema migration. A column declared without \<open>NOT NULL\<close> is an
  \<open>option\<close> (\<open>None\<close> is SQL \<open>NULL\<close>); a \<open>text\<close> column with a \<open>CHECK (c IN (...))\<close>
  constraint is a datatype of exactly the listed values. Several tables have columns of
  the same name (\<open>id\<close>, \<open>task_id\<close>, \<open>created_at\<close>), so each field carries a one-letter
  prefix for its table. A \<open>uuid\<close> is its text form; a \<open>timestamptz\<close> is an instant counted
  on the server's clock; a \<open>date\<close> is its text form \<open>YYYY-MM-DD\<close>.
\<close>

type_synonym uuid = string
type_synonym timestamptz = nat
type_synonym date = string

datatype role = Admin | Employee
datatype profile_status = Active | Disabled
datatype task_status = To_do | In_progress | Done
datatype priority = Low | Medium | High
datatype category = Work | Personal

record profile =
  p_id :: uuid
  p_username :: string
  p_role :: role
  p_status :: profile_status
  p_created_at :: "timestamptz option"
  p_updated_at :: "timestamptz option"

record task =
  t_id :: uuid
  t_title :: string
  t_description :: "string option"
  t_status :: task_status
  t_priority :: priority
  t_due_date :: "date option"
  t_category :: category
  t_tags :: "string list option"
  t_created_by :: "uuid option"
  t_is_deleted :: "bool option"
  t_deleted_at :: "timestamptz option"
  t_created_at :: "timestamptz option"
  t_updated_at :: "timestamptz option"

record task_assignee =
  a_id :: uuid
  a_task_id :: "uuid option"
  a_user_id :: "uuid option"
  a_assigned_at :: "timestamptz option"

record task_comment =
  c_id :: uuid
  c_task_id :: "uuid option"
  c_user_id :: "uuid option"
  c_content :: string
  c_created_at :: "timestamptz option"

record task_attachment =
  f_id :: uuid
  f_task_id :: "uuid option"
  f_file_name :: string
  f_file_url :: string
  f_file_type :: "string option"
  f_uploaded_by :: "uuid option"
  f_created_at :: "timestamptz option"

record db =
  profiles :: "profile list"
  tasks :: "task list"
  task_assignees :: "task_assignee list"
  task_comments :: "task_comment list"
  task_attachments :: "task_attachment list"

datatype db_error = Rls_violation | Unique_violation | Foreign_key_violation | Invalid_date_syntax

section \<open>Row-level security\<close>

text \<open>
  Every table has row-level security enabled and every policy is declared
  \<open>TO authenticated\<close> without \<open>AS RESTRICTIVE\<close>. A policy expression is a predicate of the
  database, of \<open>auth.uid()\<close> (the subject) and of the row; an SQL comparison with \<open>NULL\<close>
  is not true, so a comparison of a nullable column holds only on \<open>Some\<close>. The policies
  of one table and one command are combined with OR, and a command with no policy is
  denied: \<open>permissive []\<close> is \<open>False\<close>.
\<close>

definition permissive :: "(db \<Rightarrow> uuid \<Rightarrow> 'r \<Rightarrow> bool) list \<Rightarrow> db \<Rightarrow> uuid \<Rightarrow> 'r \<Rightarrow> bool" where
  "permissive ps d uid r = list_ex (\<lambda>pol. pol d uid r) ps"

text \<open>
  Which policies a command consults, as PostgreSQL applies them. \<open>reads\<close> says that the
  statement needs read access to the table (a \<open>WHERE\<close> or \<open>RETURNING\<close> clause that refers
  to its columns): the \<open>SELECT\<close> policies then apply to the existing row and to the new
  row as well. \<open>sel\<close>, \<open>ins\<close>, \<open>upd\<close>, \<open>chk\<close> and \<open>del\<close> are the table's \<open>USING\<close>
  expressions for \<open>SELECT\<close>, its \<open>WITH CHECK\<close> expressions for \<open>INSERT\<close>, its \<open>USING\<close>
  and \<open>WITH CHECK\<close> expressions for \<open>UPDATE\<close> and its \<open>USING\<close> expressions for
  \<open>DELETE\<close>.
\<close>

definition rls_insert ::
  "(db \<Rightarrow> uuid \<Rightarrow> 'r \<Rightarrow> bool) list \<Rightarrow> (db \<Rightarrow> uuid \<Rightarrow> 'r \<Rightarrow> bool) list \<Rightarrow>
   db \<Rightarrow> uuid \<Rightarrow> bool \<Rightarrow> 'r \<Rightarrow> bool" where
  "rls_insert sel ins d uid reads new =
     (permissive ins d uid new \<and> (reads \<longrightarrow> permissive sel d uid new))"

definition rls_update_using ::
  "(db \<Rightarrow> uuid \<Rightarrow> 'r \<Rightarrow> bool) list \<Rightarrow> (db \<Rightarrow> uuid \<Rightarrow> 'r \<Rightarrow> bool) list \<Rightarrow>
   db \<Rightarrow> uuid \<Rightarrow> bool \<Rightarrow> 'r \<Rightarrow> bool" where
  "rls_update_using sel upd d uid reads old =
     ((reads \<longrightarrow> permissive sel d uid old) \<and> permissive upd d uid old)"

definition rls_update_check ::
  "(db \<Rightarrow> uuid \<Rightarrow> 'r \<Rightarrow> bool) list \<Rightarrow> (db \<Rightarrow> uuid \<Rightarrow> 'r \<Rightarrow> bool) list \<Rightarrow>
   db \<Rightarrow> uuid \<Rightarrow> bool \<Rightarrow> 'r \<Rightarrow> bool" where
  "rls_update_check sel chk d uid reads new =
     (permissive chk d uid new \<and> (reads \<longrightarrow> permissive sel d uid new))"

definition rls_delete ::
  "(db \<Rightarrow> uuid \<Rightarrow> 'r \<Rightarrow> bool) list \<Rightarrow> (db \<Rightarrow> uuid \<Rightarrow> 'r \<Rightarrow> bool) list \<Rightarrow>
   db \<Rightarrow> uuid \<Rightarrow> bool \<Rightarrow> 'r \<Rightarrow> bool" where
  "rls_delete sel del d uid reads old =
     ((reads \<longrightarrow> permissive sel d uid old) \<and> permissive del d uid old)"

subsection \<open>Profiles policies\<close>

definition users_can_view_active_profiles :: "db \<Rightarrow> uuid \<Rightarrow> profile \<Rightarrow> bool" where
  "users_can_view_active_profiles d uid p = (p_status p = Active \<or> p_id p = uid)"

definition profiles_select_policies :: "(db \<Rightarrow> uuid \<Rightarrow> profile \<Rightarrow> bool) list" where
  "profiles_select_policies = [users_can_view_active_profiles]"

definition profiles_select_allowed :: "db \<Rightarrow> uuid \<Rightarrow> profile \<Rightarrow> bool" where
  "profiles_select_allowed = permissive profiles_select_policies"

text \<open>
  \<open>EXISTS (SELECT 1 FROM profiles WHERE profiles.id = auth.uid() AND profiles.role = 'admin')\<close>,
  the subquery of every admin policy. It runs as the subject, so it sees the rows of
  \<open>profiles\<close> that the \<open>SELECT\<close> policy of \<open>profiles\<close> shows to the subject.
\<close>

definition exists_admin_profile :: "db \<Rightarrow> uuid \<Rightarrow> bool" where
  "exists_admin_profile d uid =
     list_ex (\<lambda>p. p_id p = uid \<and> p_role p = Admin) (filter (profiles_select_allowed d uid) (profiles d))"

definition users_can_update_own_profile_using :: "db \<Rightarrow> uuid \<Rightarrow> profile \<Rightarrow> bool" where
  "users_can_update_own_profile_using d uid p = (p_id p = uid)"

definition users_can_update_own_profile_check :: "db \<Rightarrow> uuid \<Rightarrow> profile \<Rightarrow> bool" where
  "users_can_update_own_profile_check d uid p = (p_id p = uid)"

definition admins_can_update_any_profile_using :: "db \<Rightarrow> uuid \<Rightarrow> profile \<Rightarrow> bool" where
  "admins_can_update_any_profile_using d uid p = exists_admin_profile d uid"

definition admins_can_update_any_profile_check :: "db \<Rightarrow> uuid \<Rightarrow> profile \<Rightarrow> bool" where
  "admins_can_update_any_profile_check d uid p = exists_admin_profile d uid"

definition users_can_insert_own_profile :: "db \<Rightarrow> uuid \<Rightarrow> profile \<Rightarrow> bool" where
  "users_can_insert_own_profile d uid p = (p_id p = uid)"

definition profiles_insert_allowed :: "db \<Rightarrow> uuid \<Rightarrow> bool \<Rightarrow> profile \<Rightarrow> bool" where
  "profiles_insert_allowed = rls_insert profiles_select_policies [users_can_insert_own_profile]"

definition profiles_update_using :: "db \<Rightarrow> uuid \<Rightarrow> bool \<Rightarrow> profile \<Rightarrow> bool" where
  "profiles_update_using =
     rls_update_using profiles_select_policies
       [users_can_update_own_profile_using, admins_can_update_any_profile_using]"

definition profiles_update_check :: "db \<Rightarrow> uuid \<Rightarrow> bool \<Rightarrow> profile \<Rightarrow> bool" where
  "profiles_update_check =
     rls_update_check profiles_select_policies
       [users_can_update_own_profile_check, admins_can_update_any_profile_check]"

definition profiles_update_allowed :: "db \<Rightarrow> uuid \<Rightarrow> bool \<Rightarrow> profile \<Rightarrow> profile \<Rightarrow> bool" where
  "profiles_update_allowed d uid reads old new =
     (profiles_update_using d uid reads old \<and> profiles_update_check d uid reads new)"

definition profiles_delete_allowed :: "db \<Rightarrow> uuid \<Rightarrow> bool \<Rightarrow> profile \<Rightarrow> bool" where
  "profiles_delete_allowed = rls_delete profiles_select_policies []"

subsection \<open>Tasks policies\<close>

definition users_can_view_non_deleted_tasks :: "db \<Rightarrow> uuid \<Rightarrow> task \<Rightarrow> bool" where
  "users_can_view_non_deleted_tasks d uid t = (t_is_deleted t = Some False)"

definition users_can_view_deleted_tasks :: "db \<Rightarrow> uuid \<Rightarrow> task \<Rightarrow> bool" where
  "users_can_view_deleted_tasks d uid t =
     (t_is_deleted t = Some True \<and> exists_admin_profile d uid)"

definition tasks_select_policies :: "(db \<Rightarrow> uuid \<Rightarrow> task \<Rightarrow> bool) list" where
  "tasks_select_policies = [users_can_view_non_deleted_tasks, users_can_view_deleted_tasks]"

definition tasks_select_allowed :: "db \<Rightarrow> uuid \<Rightarrow> task \<Rightarrow> bool" where
  "tasks_select_allowed = permissive tasks_select_policies"

definition admins_can_create_tasks :: "db \<Rightarrow> uuid \<Rightarrow> task \<Rightarrow> bool" where
  "admins_can_create_tasks d uid t = exists_admin_profile d uid"

definition admins_can_update_any_task_using :: "db \<Rightarrow> uuid \<Rightarrow> task \<Rightarrow> bool" where
  "admins_can_update_any_task_using d uid t = exists_admin_profile d uid"

definition admins_can_update_any_task_check :: "db \<Rightarrow> uuid \<Rightarrow> task \<Rightarrow> bool" where
  "admins_can_update_any_task_check d uid t = exists_admin_profile d uid"

definition users_can_view_task_assignments :: "db \<Rightarrow> uuid \<Rightarrow> task_assignee \<Rightarrow> bool" where
  "users_can_view_task_assignments d uid a = True"

definition task_assignees_select_policies :: "(db \<Rightarrow> uuid \<Rightarrow> task_assignee \<Rightarrow> bool) list" where
  "task_assignees_select_policies = [users_can_view_task_assignments]"

definition task_assignees_select_allowed :: "db \<Rightarrow> uuid \<Rightarrow> task_assignee \<Rightarrow> bool" where
  "task_assignees_select_allowed = permissive task_assignees_select_policies"

text \<open>
  \<open>EXISTS (SELECT 1 FROM task_assignees WHERE task_assignees.task_id = tasks.id
  AND task_assignees.user_id = auth.uid())\<close>, over the assignments the subject can see.
\<close>

definition exists_assignment :: "db \<Rightarrow> uuid \<Rightarrow> uuid \<Rightarrow> bool" where
  "exists_assignment d uid tid =
     list_ex (\<lambda>a. a_task_id a = Some tid \<and> a_user_id a = Some uid)
       (filter (task_assignees_select_allowed d uid) (task_assignees d))"

definition employees_can_update_assigned_task_status_using :: "db \<Rightarrow> uuid \<Rightarrow> task \<Rightarrow> bool" where
  "employees_can_update_assigned_task_status_using d uid t =
     (exists_assignment d uid (t_id t) \<and> t_is_deleted t = Some False)"

definition employees_can_update_assigned_task_status_check :: "db \<Rightarrow> uuid \<Rightarrow> task \<Rightarrow> bool" where
  "employees_can_update_assigned_task_status_check d uid t =
     (exists_assignment d uid (t_id t) \<and> t_is_deleted t = Some False)"

definition tasks_insert_allowed :: "db \<Rightarrow> uuid \<Rightarrow> bool \<Rightarrow> task \<Rightarrow> bool" where
  "tasks_insert_allowed = rls_insert tasks_select_policies [admins_can_create_tasks]"

definition tasks_update_using :: "db \<Rightarrow> uuid \<Rightarrow> bool \<Rightarrow> task \<Rightarrow> bool" where
  "tasks_update_using =
     rls_update_using tasks_select_policies
       [admins_can_update_any_task_using, employees_can_update_assigned_task_status_using]"

definition tasks_update_check :: "db \<Rightarrow> uuid \<Rightarrow> bool \<Rightarrow> task \<Rightarrow> bool" where
  "tasks_update_check =
     rls_update_check tasks_select_policies
       [admins_can_update_any_task_check, employees_can_update_assigned_task_status_check]"

definition tasks_update_allowed :: "db \<Rightarrow> uuid \<Rightarrow> bool \<Rightarrow> task \<Rightarrow> task \<Rightarrow> bool" where
  "tasks_update_allowed d uid reads old new =
     (tasks_update_using d uid reads old \<and> tasks_update_check d uid reads new)"

text \<open>No policy \<open>FOR DELETE\<close> (nor \<open>FOR ALL\<close>) is declared on \<open>tasks\<close>.\<close>

definition tasks_delete_allowed :: "db \<Rightarrow> uuid \<Rightarrow> bool \<Rightarrow> task \<Rightarrow> bool" where
  "tasks_delete_allowed = rls_delete tasks_select_policies []"

subsection \<open>Task assignees policies\<close>

definition admins_can_create_task_assignments :: "db \<Rightarrow> uuid \<Rightarrow> task_assignee \<Rightarrow> bool" where
  "admins_can_create_task_assignments d uid a = exists_admin_profile d uid"

definition admins_can_delete_task_assignments :: "db \<Rightarrow> uuid \<Rightarrow> task_assignee \<Rightarrow> bool" where
  "admins_can_delete_task_assignments d uid a = exists_admin_profile d uid"

definition task_assignees_insert_allowed :: "db \<Rightarrow> uuid \<Rightarrow> bool \<Rightarrow> task_assignee \<Rightarrow> bool" where
  "task_assignees_insert_allowed =
     rls_insert task_assignees_select_policies [admins_can_create_task_assignments]"

definition task_assignees_update_allowed ::
  "db \<Rightarrow> uuid \<Rightarrow> bool \<Rightarrow> task_assignee \<Rightarrow> task_assignee \<Rightarrow> bool" where
  "task_assignees_update_allowed d uid reads old new =
     (rls_update_using task_assignees_select_policies [] d uid reads old \<and>
      rls_update_check task_assignees_select_policies [] d uid reads new)"

definition task_assignees_delete_allowed :: "db \<Rightarrow> uuid \<Rightarrow> bool \<Rightarrow> task_assignee \<Rightarrow> bool" where
  "task_assignees_delete_allowed =
     rls_delete task_assignees_select_policies [admins_can_delete_task_assignments]"

subsection \<open>Task comments policies\<close>

text \<open>
  \<open>EXISTS (SELECT 1 FROM tasks WHERE tasks.id = task_id AND tasks.is_deleted = false)\<close>,
  over the tasks the subject can see; \<open>task_id\<close> is the column of the comment or of the
  attachment.
\<close>

definition exists_non_deleted_task :: "db \<Rightarrow> uuid \<Rightarrow> uuid option \<Rightarrow> bool" where
  "exists_non_deleted_task d uid tid =
     list_ex (\<lambda>t. tid = Some (t_id t) \<and> t_is_deleted t = Some False)
       (filter (tasks_select_allowed d uid) (tasks d))"

definition users_can_view_comments :: "db \<Rightarrow> uuid \<Rightarrow> task_comment \<Rightarrow> bool" where
  "users_can_view_comments d uid c = exists_non_deleted_task d uid (c_task_id c)"

definition users_can_create_comments :: "db \<Rightarrow> uuid \<Rightarrow> task_comment \<Rightarrow> bool" where
  "users_can_create_comments d uid c = exists_non_deleted_task d uid (c_task_id c)"

definition users_can_update_own_comments_using :: "db \<Rightarrow> uuid \<Rightarrow> task_comment \<Rightarrow> bool" where
  "users_can_update_own_comments_using d uid c = (c_user_id c = Some uid)"

definition users_can_update_own_comments_check :: "db \<Rightarrow> uuid \<Rightarrow> task_comment \<Rightarrow> bool" where
  "users_can_update_own_comments_check d uid c = (c_user_id c = Some uid)"

definition users_can_delete_own_comments :: "db \<Rightarrow> uuid \<Rightarrow> task_comment \<Rightarrow> bool" where
  "users_can_delete_own_comments d uid c = (c_user_id c = Some uid)"

definition task_comments_select_policies :: "(db \<Rightarrow> uuid \<Rightarrow> task_comment \<Rightarrow> bool) list" where
  "task_comments_select_policies = [users_can_view_comments]"

definition task_comments_select_allowed :: "db \<Rightarrow> uuid \<Rightarrow> task_comment \<Rightarrow> bool" where
  "task_comments_select_allowed = permissive task_comments_select_policies"

definition task_comments_insert_allowed :: "db \<Rightarrow> uuid \<Rightarrow> bool \<Rightarrow> task_comment \<Rightarrow> bool" where
  "task_comments_insert_allowed = rls_insert task_comments_select_policies [users_can_create_comments]"

definition task_comments_update_allowed ::
  "db \<Rightarrow> uuid \<Rightarrow> bool \<Rightarrow> task_comment \<Rightarrow> task_comment \<Rightarrow> bool" where
  "task_comments_update_allowed d uid reads old new =
     (rls_update_using task_comments_select_policies [users_can_update_own_comments_using]
        d uid reads old \<and>
      rls_update_check task_comments_select_policies [users_can_update_own_comments_check]
        d uid reads new)"

definition task_comments_delete_allowed :: "db \<Rightarrow> uuid \<Rightarrow> bool \<Rightarrow> task_comment \<Rightarrow> bool" where
  "task_comments_delete_allowed =
     rls_delete task_comments_select_policies [users_can_delete_own_comments]"

subsection \<open>Task attachments policies\<close>

definition users_can_view_attachments :: "db \<Rightarrow> uuid \<Rightarrow> task_attachment \<Rightarrow> bool" where
  "users_can_view_attachments d uid f = exists_non_deleted_task d uid (f_task_id f)"

definition users_can_upload_attachments :: "db \<Rightarrow> uuid \<Rightarrow> task_attachment \<Rightarrow> bool" where
  "users_can_upload_attachments d uid f = exists_non_deleted_task d uid (f_task_id f)"

definition users_can_delete_own_attachments :: "db \<Rightarrow> uuid \<Rightarrow> task_attachment \<Rightarrow> bool" where
  "users_can_delete_own_attachments d uid f = (f_uploaded_by f = Some uid)"

definition admins_can_delete_any_attachment :: "db \<Rightarrow> uuid \<Rightarrow> task_attachment \<Rightarrow> bool" where
  "admins_can_delete_any_attachment d uid f = exists_admin_profile d uid"

definition task_attachments_select_policies ::
  "(db \<Rightarrow> uuid \<Rightarrow> task_attachment \<Rightarrow> bool) list" where
  "task_attachments_select_policies = [users_can_view_attachments]"

definition task_attachments_select_allowed :: "db \<Rightarrow> uuid \<Rightarrow> task_attachment \<Rightarrow> bool" where
  "task_attachments_select_allowed = permissive task_attachments_select_policies"

definition task_attachments_insert_allowed :: "db \<Rightarrow> uuid \<Rightarrow> bool \<Rightarrow> task_attachment \<Rightarrow> bool" where
  "task_attachments_insert_allowed =
     rls_insert task_attachments_select_policies [users_can_upload_attachments]"

definition task_attachments_update_allowed ::
  "db \<Rightarrow> uuid \<Rightarrow> bool \<Rightarrow> task_attachment \<Rightarrow> task_attachment \<Rightarrow> bool" where
  "task_attachments_update_allowed d uid reads old new =
     (rls_update_using task_attachments_select_policies [] d uid reads old \<and>
      rls_update_check task_attachments_select_policies [] d uid reads new)"

definition task_attachments_delete_allowed :: "db \<Rightarrow> uuid \<Rightarrow> bool \<Rightarrow> task_attachment \<Rightarrow> bool" where
  "task_attachments_delete_allowed =
     rls_delete task_attachments_select_policies
       [users_can_delete_own_attachments, admins_can_delete_any_attachment]"

subsection \<open>The rule-set as one decision\<close>

text \<open>
  A request is a table, a command and the row it touches (for \<open>UPDATE\<close> the existing
  row and the new one). \<open>authorize\<close> is the decision of the whole rule-set.
\<close>

datatype request =
    Profiles_select profile
  | Profiles_insert profile
  | Profiles_update profile profile
  | Profiles_delete profile
  | Tasks_select task
  | Tasks_insert task
  | Tasks_update task task
  | Tasks_delete task
  | Task_assignees_select task_assignee
  | Task_assignees_insert task_assignee
  | Task_assignees_update task_assignee task_assignee
  | Task_assignees_delete task_assignee
  | Task_comments_select task_comment
  | Task_comments_insert task_comment
  | Task_comments_update task_comment task_comment
  | Task_comments_delete task_comment
  | Task_attachments_select task_attachment
  | Task_attachments_insert task_attachment
  | Task_attachments_update task_attachment task_attachment
  | Task_attachments_delete task_attachment

fun authorize :: "db \<Rightarrow> uuid \<Rightarrow> bool \<Rightarrow> request \<Rightarrow> bool" where
  "authorize d uid reads (Profiles_select p) = profiles_select_allowed d uid p"
| "authorize d uid reads (Profiles_insert p) = profiles_insert_allowed d uid reads p"
| "authorize d uid reads (Profiles_update p p') = profiles_update_allowed d uid reads p p'"
| "authorize d uid reads (Profiles_delete p) = profiles_delete_allowed d uid reads p"
| "authorize d uid reads (Tasks_select t) = tasks_select_allowed d uid t"
| "authorize d uid reads (Tasks_insert t) = tasks_insert_allowed d uid reads t"
| "authorize d uid reads (Tasks_update t t') = tasks_update_allowed d uid reads t t'"
| "authorize d uid reads (Tasks_delete t) = tasks_delete_allowed d uid reads t"
| "authorize d uid reads (Task_assignees_select a) = task_assignees_select_allowed d uid a"
| "authorize d uid reads (Task_assignees_insert a) = task_assignees_insert_allowed d uid reads a"
| "authorize d uid reads (Task_assignees_update a a') = task_assignees_update_allowed d uid reads a a'"
| "authorize d uid reads (Task_assignees_delete a) = task_assignees_delete_allowed d uid reads a"
| "authorize d uid reads (Task_comments_select c) = task_comments_select_allowed d uid c"
| "authorize d uid reads (Task_comments_insert c) = task_comments_insert_allowed d uid reads c"
| "authorize d uid reads (Task_comments_update c c') = task_comments_update_allowed d uid reads c c'"
| "authorize d uid reads (Task_comments_delete c) = task_comments_delete_allowed d uid reads c"
| "authorize d uid reads (Task_attachments_select f) = task_attachments_select_allowed d uid f"
| "authorize d uid reads (Task_attachments_insert f) = task_attachments_insert_allowed d uid reads f"
| "authorize d uid reads (Task_attachments_update f f') = task_attachments_update_allowed d uid reads f f'"
| "authorize d uid reads (Task_attachments_delete f) = task_attachments_delete_allowed d uid reads f"

section \<open>Statements\<close>

text \<open>The filters \<open>.eq('id', ...)\<close> on \<open>tasks\<close> and \<open>.eq('task_id', ...)\<close> on \<open>task_assignees\<close>.\<close>

definition eq_id :: "uuid \<Rightarrow> task \<Rightarrow> bool" where
  "eq_id i t = (t_id t = i)"

definition eq_task_id :: "uuid \<Rightarrow> task_assignee \<Rightarrow> bool" where
  "eq_task_id i a = (a_task_id a = Some i)"

text \<open>
  The object a client passes to \<open>.update(...)\<close> on \<open>tasks\<close>: a key that is absent is
  \<open>None\<close> and leaves its column alone. The keys are those the client code sends;
  \<open>due_date\<close> and \<open>deleted_at\<close> may be sent as \<open>null\<close>. \<open>due_date\<close> arrives as text
  and is cast to \<open>date\<close> by the database. The cast is the database's, not code of this
  repository, so it is a parameter \<open>to_date\<close> of every statement that takes such an
  object: \<open>to_date s\<close> is \<open>None\<close> when the text \<open>s\<close> is not a date (the statement then
  fails, with \<open>Invalid_date_syntax\<close> standing for the error of the cast) and otherwise
  the date that is stored. \<open>deleted_at\<close> is sent as the text of the client's
  \<open>new Date()\<close>, which is always a timestamp, and is kept here as that instant.
\<close>

record task_update =
  u_title :: "string option"
  u_description :: "string option"
  u_status :: "task_status option"
  u_priority :: "priority option"
  u_due_date :: "string option option"
  u_category :: "category option"
  u_tags :: "string list option"
  u_is_deleted :: "bool option"
  u_deleted_at :: "timestamptz option option"

definition no_columns :: task_update where
  "no_columns = \<lparr>u_title = None, u_description = None, u_status = None, u_priority = None,
     u_due_date = None, u_category = None, u_tags = None, u_is_deleted = None,
     u_deleted_at = None\<rparr>"

definition invalid_date :: "(string \<Rightarrow> date option) \<Rightarrow> task_update \<Rightarrow> bool" where
  "invalid_date to_date u =
     (case u_due_date u of Some (Some s) \<Rightarrow> to_date s = None | _ \<Rightarrow> False)"

definition set_columns :: "(string \<Rightarrow> date option) \<Rightarrow> task_update \<Rightarrow> task \<Rightarrow> task" where
  "set_columns to_date u t = t\<lparr>
     t_title := (case u_title u of None \<Rightarrow> t_title t | Some x \<Rightarrow> x),
     t_description := (case u_description u of None \<Rightarrow> t_description t | Some x \<Rightarrow> Some x),
     t_status := (case u_status u of None \<Rightarrow> t_status t | Some x \<Rightarrow> x),
     t_priority := (case u_priority u of None \<Rightarrow> t_priority t | Some x \<Rightarrow> x),
     t_due_date := (case u_due_date u of None \<Rightarrow> t_due_date t | Some None \<Rightarrow> None
                    | Some (Some s) \<Rightarrow> to_date s),
     t_category := (case u_category u of None \<Rightarrow> t_category t | Some x \<Rightarrow> x),
     t_tags := (case u_tags u of None \<Rightarrow> t_tags t | Some x \<Rightarrow> Some x),
     t_is_deleted := (case u_is_deleted u of None \<Rightarrow> t_is_deleted t | Some x \<Rightarrow> Some x),
     t_deleted_at := (case u_deleted_at u of None \<Rightarrow> t_deleted_at t | Some x \<Rightarrow> x)\<rparr>"

text \<open>
  The trigger \<open>update_tasks_updated_at\<close>: before every update of a row of \<open>tasks\<close>,
  \<open>NEW.updated_at = now()\<close>.
\<close>

definition update_updated_at_column :: "timestamptz \<Rightarrow> task \<Rightarrow> task" where
  "update_updated_at_column now new = new\<lparr>t_updated_at := Some now\<rparr>"

text \<open>
  \<open>UPDATE tasks SET ... WHERE ...\<close> run by subject \<open>uid\<close> at server time \<open>now\<close>. A row
  is updated when the \<open>WHERE\<close> clause and the \<open>USING\<close> expressions hold of it; the other
  rows are passed over without an error. The new row, after the trigger, must satisfy
  the \<open>WITH CHECK\<close> expressions, or the whole statement fails and changes nothing. Policy
  subqueries see the database as it was when the statement began.
\<close>

definition update_tasks ::
  "(string \<Rightarrow> date option) \<Rightarrow> db \<Rightarrow> uuid \<Rightarrow> timestamptz \<Rightarrow> bool \<Rightarrow> (task \<Rightarrow> bool) \<Rightarrow>
   task_update \<Rightarrow> db_error + db" where
  "update_tasks to_date d uid now reads wh u =
     (let hit = (\<lambda>t. wh t \<and> tasks_update_using d uid reads t);
          new = (\<lambda>t. update_updated_at_column now (set_columns to_date u t))
      in if invalid_date to_date u then Inl Invalid_date_syntax
         else if list_all (\<lambda>t. hit t \<longrightarrow> tasks_update_check d uid reads (new t)) (tasks d)
         then Inr (d\<lparr>tasks := map (\<lambda>t. if hit t then new t else t) (tasks d)\<rparr>)
         else Inl Rls_violation)"

text \<open>
  \<open>DELETE FROM tasks WHERE ...\<close>. The rows for which the \<open>WHERE\<close> clause and the
  \<open>USING\<close> expressions hold are removed, and with them, by \<open>ON DELETE CASCADE\<close>, the
  assignments, comments and attachments that refer to them.
\<close>

definition refers_to :: "uuid list \<Rightarrow> uuid option \<Rightarrow> bool" where
  "refers_to ids r = (case r of None \<Rightarrow> False | Some i \<Rightarrow> i \<in> set ids)"

definition delete_tasks :: "db \<Rightarrow> uuid \<Rightarrow> bool \<Rightarrow> (task \<Rightarrow> bool) \<Rightarrow> db" where
  "delete_tasks d uid reads wh =
     (let hit = (\<lambda>t. wh t \<and> tasks_delete_allowed d uid reads t);
          ids = map t_id (filter hit (tasks d))
      in d\<lparr>tasks := filter (\<lambda>t. \<not> hit t) (tasks d),
           task_assignees := filter (\<lambda>a. \<not> refers_to ids (a_task_id a)) (task_assignees d),
           task_comments := filter (\<lambda>c. \<not> refers_to ids (c_task_id c)) (task_comments d),
           task_attachments :=
             filter (\<lambda>f. \<not> refers_to ids (f_task_id f)) (task_attachments d)\<rparr>)"

text \<open>\<open>DELETE FROM task_assignees WHERE ...\<close>.\<close>

definition delete_task_assignees ::
  "db \<Rightarrow> uuid \<Rightarrow> bool \<Rightarrow> (task_assignee \<Rightarrow> bool) \<Rightarrow> db" where
  "delete_task_assignees d uid reads wh =
     d\<lparr>task_assignees :=
         filter (\<lambda>a. \<not> (wh a \<and> task_assignees_delete_allowed d uid reads a)) (task_assignees d)\<rparr>"

text \<open>
  \<open>INSERT INTO task_assignees (task_id, user_id) VALUES ...\<close>, one statement for all the
  pairs. \<open>id\<close> defaults to \<open>gen_random_uuid()\<close>, whose successive values are \<open>gen 0\<close>,
  \<open>gen 1\<close>, ...; \<open>assigned_at\<close> defaults to \<open>now()\<close>. The statement fails as a whole when
  a row fails the \<open>WITH CHECK\<close> expressions, repeats a primary key or a
  \<open>(task_id, user_id)\<close> pair, or refers to a task or a profile that does not exist.
\<close>

definition insert_task_assignees ::
  "db \<Rightarrow> uuid \<Rightarrow> timestamptz \<Rightarrow> (nat \<Rightarrow> uuid) \<Rightarrow> bool \<Rightarrow> (uuid \<times> uuid) list \<Rightarrow> db_error + db" where
  "insert_task_assignees d uid now gen reads vals =
     (let rows = map (\<lambda>(i, (tid, u)).
                   \<lparr>a_id = gen i, a_task_id = Some tid, a_user_id = Some u,
                    a_assigned_at = Some now\<rparr>) (enumerate 0 vals);
          pair = (\<lambda>a. (a_task_id a, a_user_id a))
      in if \<not> list_all (task_assignees_insert_allowed d uid reads) rows then Inl Rls_violation
         else if \<not> distinct (map a_id rows) \<or> \<not> distinct (map pair rows) \<or>
                 list_ex (\<lambda>a. a_id a \<in> set (map a_id (task_assignees d)) \<or>
                            pair a \<in> set (map pair (task_assignees d))) rows
         then Inl Unique_violation
         else if list_ex (\<lambda>(tid, u). tid \<notin> set (map t_id (tasks d)) \<or>
                            u \<notin> set (map p_id (profiles d))) vals
         then Inl Foreign_key_violation
         else Inr (d\<lparr>task_assignees := task_assignees d @ rows\<rparr>))"

section \<open>Lifecycle trigger\<close>

text \<open>
  \<open>handle_new_user\<close>, run by the trigger \<open>on_auth_user_created\<close> after each insert into
  \<open>auth.users\<close>, of which \<open>NEW.id\<close> and \<open>NEW.email\<close> are used. It is
  \<open>SECURITY DEFINER\<close>: no policy applies to its insert; the primary key of \<open>profiles\<close>
  and the \<open>UNIQUE\<close> constraint on \<open>username\<close> do, and a violation aborts the insert into
  \<open>auth.users\<close> with it. \<open>created_at\<close> and \<open>updated_at\<close> take their default \<open>now()\<close>.
\<close>

record auth_user =
  au_id :: uuid
  au_email :: "string option"

definition coalesce :: "'a option \<Rightarrow> 'a \<Rightarrow> 'a" where
  "coalesce x y = (case x of Some v \<Rightarrow> v | None \<Rightarrow> y)"

definition handle_new_user :: "db \<Rightarrow> timestamptz \<Rightarrow> auth_user \<Rightarrow> db_error + db" where
  "handle_new_user d now new =
     (let row = \<lparr>p_id = au_id new,
                 p_username = coalesce (au_email new) (''user_'' @ au_id new),
                 p_role = Employee, p_status = Active,
                 p_created_at = Some now, p_updated_at = Some now\<rparr>
      in if p_id row \<in> set (map p_id (profiles d)) \<or>
            p_username row \<in> set (map p_username (profiles d))
         then Inl Unique_violation
         else Inr (d\<lparr>profiles := profiles d @ [row]\<rparr>))"

section \<open>Client handlers\<close>

text \<open>
  The handlers of \<open>TaskModal\<close> and of the \<open>Trash\<close> page that write to \<open>tasks\<close>. \<open>uid\<close>
  is the subject of the session that sends the statements, \<open>to_date\<close> the database's
  cast of a text to a date, \<open>profile\<close> the profile the
  client holds (\<open>null\<close> is \<open>None\<close>), \<open>task\<close> the task the modal was opened on. Each
  client statement on \<open>tasks\<close> filters with \<open>.eq('id', ...)\<close>, so it reads the table.
  A handler returns the database it leaves behind.
\<close>

record task_with_assignees = task +
  tw_assignees :: "profile list"
  tw_comments_count :: nat

record form_data =
  fd_title :: string
  fd_description :: string
  fd_status :: task_status
  fd_priority :: priority
  fd_due_date :: string
  fd_category :: category
  fd_tags :: "string list"
  fd_assignees :: "uuid list"

datatype submit_result = Saved | Returned | No_permission | Failed db_error

definition isAdmin :: "profile option \<Rightarrow> bool" where
  "isAdmin profile = (case profile of None \<Rightarrow> False | Some p \<Rightarrow> p_role p = Admin)"

definition canUpdate :: "profile \<Rightarrow> task_with_assignees \<Rightarrow> bool" where
  "canUpdate profile task =
     (isAdmin (Some profile) \<or> list_ex (\<lambda>a. p_id a = p_id profile) (tw_assignees task))"

definition updateData :: "profile \<Rightarrow> form_data \<Rightarrow> task_update" where
  "updateData profile formData =
     (if isAdmin (Some profile)
      then \<lparr>u_title = Some (fd_title formData),
            u_description = Some (fd_description formData),
            u_status = Some (fd_status formData),
            u_priority = Some (fd_priority formData),
            u_due_date = Some (Some (fd_due_date formData)),
            u_category = Some (fd_category formData),
            u_tags = Some (fd_tags formData),
            u_is_deleted = None, u_deleted_at = None\<rparr>
      else no_columns\<lparr>u_status := Some (fd_status formData)\<rparr>)"

text \<open>
  \<open>handleSubmit\<close> on an existing task (the branch \<open>isEditing && task\<close>), with what it
  shows the user. The update runs at server time \<open>now\<close>, the insert of the new
  assignments at \<open>later\<close>. The result of the delete of the old assignments is not looked
  at by the handler.
\<close>

definition handleSubmit ::
  "(string \<Rightarrow> date option) \<Rightarrow> db \<Rightarrow> uuid \<Rightarrow> timestamptz \<Rightarrow> timestamptz \<Rightarrow> (nat \<Rightarrow> uuid) \<Rightarrow> profile option \<Rightarrow>
   task_with_assignees \<Rightarrow> form_data \<Rightarrow> submit_result \<times> db" where
  "handleSubmit to_date d uid now later gen profile task formData =
     (case profile of None \<Rightarrow> (Returned, d) | Some pr \<Rightarrow>
        if \<not> canUpdate pr task then (No_permission, d)
        else
          (case update_tasks to_date d uid now True (eq_id (t_id task)) (updateData pr formData) of
             Inl e \<Rightarrow> (Failed e, d)
           | Inr d1 \<Rightarrow>
               if isAdmin profile then
                 (let d2 = delete_task_assignees d1 uid True (eq_task_id (t_id task))
                  in if fd_assignees formData \<noteq> [] then
                       (case insert_task_assignees d2 uid later gen False
                               (map (Pair (t_id task)) (fd_assignees formData)) of
                          Inl e \<Rightarrow> (Failed e, d2)
                        | Inr d3 \<Rightarrow> (Saved, d3))
                     else (Saved, d2))
               else (Saved, d1)))"

text \<open>
  \<open>handleDelete\<close> of \<open>TaskModal\<close>: the soft delete. \<open>confirmed\<close> is the answer to the
  confirmation dialog, \<open>client_now\<close> the client's \<open>new Date()\<close>.
\<close>

definition handleDelete ::
  "(string \<Rightarrow> date option) \<Rightarrow> db \<Rightarrow> uuid \<Rightarrow> timestamptz \<Rightarrow> profile option \<Rightarrow>
   task_with_assignees option \<Rightarrow> bool \<Rightarrow> timestamptz \<Rightarrow> db" where
  "handleDelete to_date d uid now profile task confirmed client_now =
     (case task of None \<Rightarrow> d | Some tk \<Rightarrow>
        if \<not> isAdmin profile then d
        else if confirmed then
          (case update_tasks to_date d uid now True (eq_id (t_id tk))
                  (no_columns\<lparr>u_is_deleted := Some True, u_deleted_at := Some (Some client_now)\<rparr>) of
             Inl e \<Rightarrow> d
           | Inr d' \<Rightarrow> d')
        else d)"

text \<open>\<open>handleRestore\<close> and \<open>handlePermanentDelete\<close> of the \<open>Trash\<close> page.\<close>

definition handleRestore ::
  "(string \<Rightarrow> date option) \<Rightarrow> db \<Rightarrow> uuid \<Rightarrow> timestamptz \<Rightarrow> uuid \<Rightarrow> db" where
  "handleRestore to_date d uid now taskId =
     (case update_tasks to_date d uid now True (eq_id taskId)
             (no_columns\<lparr>u_is_deleted := Some False, u_deleted_at := Some None\<rparr>) of
        Inl e \<Rightarrow> d
      | Inr d' \<Rightarrow> d')"

definition handlePermanentDelete :: "db \<Rightarrow> uuid \<Rightarrow> uuid \<Rightarrow> bool \<Rightarrow> db" where
  "handlePermanentDelete d uid taskId confirmed =
     (if \<not> confirmed then d else delete_tasks d uid True (eq_id taskId))"

section \<open>Notions used to state the properties\<close>

text \<open>
  The subject has role \<open>r\<close> when the row of \<open>profiles\<close> with its id has that role (\<open>id\<close>
  is the primary key, so there is at most one such row). The subject is in the assignee
  set of a task when \<open>task_assignees\<close> links the two. \<open>task_by_id\<close> is the row of
  \<open>tasks\<close> with the given primary key, \<open>pk_tasks\<close> the primary-key constraint of
  \<open>tasks\<close>.
\<close>

definition subject_has_role :: "db \<Rightarrow> uuid \<Rightarrow> role \<Rightarrow> bool" where
  "subject_has_role d uid r = list_ex (\<lambda>p. p_id p = uid \<and> p_role p = r) (profiles d)"

definition in_assignee_set :: "db \<Rightarrow> uuid \<Rightarrow> uuid \<Rightarrow> bool" where
  "in_assignee_set d uid tid =
     list_ex (\<lambda>a. a_task_id a = Some tid \<and> a_user_id a = Some uid) (task_assignees d)"

definition task_by_id :: "db \<Rightarrow> uuid \<Rightarrow> task option" where
  "task_by_id d tid = find (\<lambda>t. t_id t = tid) (tasks d)"

definition pk_tasks :: "db \<Rightarrow> bool" where
  "pk_tasks d = distinct (map t_id (tasks d))"

text \<open>
  The database in which the profile of \<open>uid\<close> has status \<open>s\<close> and nothing else differs,
  and a request in which the profile rows of \<open>uid\<close> have that status.
\<close>

definition row_with_status :: "profile_status \<Rightarrow> uuid \<Rightarrow> profile \<Rightarrow> profile" where
  "row_with_status s uid p = (if p_id p = uid then p\<lparr>p_status := s\<rparr> else p)"

definition with_status :: "profile_status \<Rightarrow> uuid \<Rightarrow> db \<Rightarrow> db" where
  "with_status s uid d = d\<lparr>profiles := map (row_with_status s uid) (profiles d)\<rparr>"

fun request_with_status :: "profile_status \<Rightarrow> uuid \<Rightarrow> request \<Rightarrow> request" where
  "request_with_status s uid (Profiles_select p) = Profiles_select (row_with_status s uid p)"
| "request_with_status s uid (Profiles_insert p) = Profiles_insert (row_with_status s uid p)"
| "request_with_status s uid (Profiles_update p p') =
     Profiles_update (row_with_status s uid p) (row_with_status s uid p')"
| "request_with_status s uid (Profiles_delete p) = Profiles_delete (row_with_status s uid p)"
| "request_with_status s uid r = r"

section \<open>Example data\<close>

text \<open>
  An administrator, two employees (the second one disabled), an active task assigned
  to the first employee, a task in the trash, and a comment by the first employee on
  each; and the date cast on the texts the examples use.
\<close>

definition example_to_date :: "string \<Rightarrow> date option" where
  "example_to_date s =
     (if s = ''2025-01-31'' \<or> s = ''Jan 31 2025'' then Some ''2025-01-31'' else None)"

definition the_admin :: profile where
  "the_admin = \<lparr>p_id = ''adm'', p_username = ''admin@example.com'', p_role = Admin,
     p_status = Active, p_created_at = Some 1, p_updated_at = Some 1\<rparr>"

definition employeeA :: profile where
  "employeeA = \<lparr>p_id = ''empA'', p_username = ''a@example.com'', p_role = Employee,
     p_status = Active, p_created_at = Some 2, p_updated_at = Some 2\<rparr>"

definition employeeB :: profile where
  "employeeB = \<lparr>p_id = ''empB'', p_username = ''b@example.com'', p_role = Employee,
     p_status = Disabled, p_created_at = Some 3, p_updated_at = Some 3\<rparr>"

definition report_task :: task where
  "report_task = \<lparr>t_id = ''t1'', t_title = ''Write report'', t_description = Some [],
     t_status = To_do, t_priority = High, t_due_date = None, t_category = Work,
     t_tags = Some [], t_created_by = Some ''adm'', t_is_deleted = Some False,
     t_deleted_at = None, t_created_at = Some 10, t_updated_at = Some 10\<rparr>"

definition trashed_task :: task where
  "trashed_task = \<lparr>t_id = ''t2'', t_title = ''Old notes'', t_description = Some [],
     t_status = Done, t_priority = Low, t_due_date = None, t_category = Personal,
     t_tags = Some [], t_created_by = Some ''adm'', t_is_deleted = Some True,
     t_deleted_at = Some 20, t_created_at = Some 11, t_updated_at = Some 20\<rparr>"

definition live_comment :: task_comment where
  "live_comment = \<lparr>c_id = ''c1'', c_task_id = Some ''t1'', c_user_id = Some ''empA'',
     c_content = ''started'', c_created_at = Some 12\<rparr>"

definition buried_comment :: task_comment where
  "buried_comment = \<lparr>c_id = ''c2'', c_task_id = Some ''t2'', c_user_id = Some ''empA'',
     c_content = ''notes'', c_created_at = Some 13\<rparr>"

definition example_db :: db where
  "example_db = \<lparr>profiles = [the_admin, employeeA, employeeB],
     tasks = [report_task, trashed_task],
     task_assignees =
       [\<lparr>a_id = ''a1'', a_task_id = Some ''t1'', a_user_id = Some ''empA'',
         a_assigned_at = Some 10\<rparr>,
        \<lparr>a_id = ''a2'', a_task_id = Some ''t2'', a_user_id = Some ''empA'',
         a_assigned_at = Some 11\<rparr>],
     task_comments = [live_comment, buried_comment],
     task_attachments = []\<rparr>"

section \<open>Facts about the policies\<close>

lemmas example_defs = example_db_def the_admin_def employeeA_def employeeB_def report_task_def
  trashed_task_def live_comment_def buried_comment_def

lemma permissive_Nil: "permissive [] d uid r = False"
  by (simp add: permissive_def)

lemma permissive_Cons: "permissive (pol # ps) d uid r = (pol d uid r \<or> permissive ps d uid r)"
  by (simp add: permissive_def)

lemma profiles_select_own: "p_id p = uid \<Longrightarrow> profiles_select_allowed d uid p"
  by (simp add: profiles_select_allowed_def profiles_select_policies_def permissive_Cons
      users_can_view_active_profiles_def)

lemma exists_admin_profile_iff: "exists_admin_profile d uid = subject_has_role d uid Admin"
  unfolding exists_admin_profile_def subject_has_role_def list_ex_iff
  using profiles_select_own by auto

lemma exists_assignment_iff: "exists_assignment d uid tid = in_assignee_set d uid tid"
  by (simp add: exists_assignment_def in_assignee_set_def task_assignees_select_allowed_def
      task_assignees_select_policies_def permissive_Cons users_can_view_task_assignments_def)

lemma tasks_select_allowed_iff:
  "tasks_select_allowed d uid t =
     (t_is_deleted t = Some False \<or> t_is_deleted t = Some True \<and> subject_has_role d uid Admin)"
  by (simp add: tasks_select_allowed_def tasks_select_policies_def permissive_Cons permissive_Nil
      users_can_view_non_deleted_tasks_def users_can_view_deleted_tasks_def
      exists_admin_profile_iff)

lemma tasks_update_using_iff:
  "tasks_update_using d uid reads t =
     ((reads \<longrightarrow> tasks_select_allowed d uid t) \<and>
      (subject_has_role d uid Admin \<or>
       in_assignee_set d uid (t_id t) \<and> t_is_deleted t = Some False))"
  by (simp add: tasks_update_using_def rls_update_using_def permissive_Cons permissive_Nil
      tasks_select_allowed_def admins_can_update_any_task_using_def
      employees_can_update_assigned_task_status_using_def exists_admin_profile_iff
      exists_assignment_iff)

lemma tasks_update_check_iff:
  "tasks_update_check d uid reads t =
     ((reads \<longrightarrow> tasks_select_allowed d uid t) \<and>
      (subject_has_role d uid Admin \<or>
       in_assignee_set d uid (t_id t) \<and> t_is_deleted t = Some False))"
  by (auto simp add: tasks_update_check_def rls_update_check_def permissive_Cons permissive_Nil
      tasks_select_allowed_def admins_can_update_any_task_check_def
      employees_can_update_assigned_task_status_check_def exists_admin_profile_iff
      exists_assignment_iff)

lemma tasks_delete_allowed_never: "\<not> tasks_delete_allowed d uid reads t"
  by (simp add: tasks_delete_allowed_def rls_delete_def permissive_Nil)

lemma find_by_key:
  "distinct (map t_id xs) \<Longrightarrow> t \<in> set xs \<Longrightarrow> find (\<lambda>x. t_id x = t_id t) xs = Some t"
  by (induction xs) (auto simp add: rev_image_eqI)

lemma find_map_keeping_id:
  assumes "\<And>x. t_id (g x) = t_id x"
  shows "find (\<lambda>x. t_id x = i) (map (\<lambda>x. if h x then g x else x) xs) =
         map_option (\<lambda>x. if h x then g x else x) (find (\<lambda>x. t_id x = i) xs)"
  by (induction xs) (simp_all add: assms)

lemma t_id_new_row: "t_id (update_updated_at_column now (set_columns to_date u t)) = t_id t"
  by (simp add: update_updated_at_column_def set_columns_def)

lemma admin_update_tasks:
  assumes "subject_has_role d uid Admin" and "u_is_deleted u = Some b" and "\<not> invalid_date to_date u"
  shows "update_tasks to_date d uid now True wh u =
         Inr (d\<lparr>tasks := map (\<lambda>t. if wh t \<and> t_is_deleted t \<noteq> None
                                   then update_updated_at_column now (set_columns to_date u t) else t)
                              (tasks d)\<rparr>)"
proof -
  have vis: "tasks_select_allowed d uid t = (t_is_deleted t \<noteq> None)" for t
    using assms(1) by (auto simp add: tasks_select_allowed_iff)
  have usg: "tasks_update_using d uid True t = (t_is_deleted t \<noteq> None)" for t
    using assms(1) by (simp add: tasks_update_using_iff vis)
  have chk: "tasks_update_check d uid True (update_updated_at_column now (set_columns to_date u t))" for t
    using assms(1,2)
    by (simp add: tasks_update_check_iff vis update_updated_at_column_def set_columns_def)
  show ?thesis
    using assms(3) by (simp add: update_tasks_def Let_def usg chk list_all_iff)
qed

lemma admin_handleDelete:
  assumes "subject_has_role d uid Admin" and "isAdmin profile"
  shows "handleDelete to_date d uid now profile (Some tk) True client_now =
         d\<lparr>tasks := map (\<lambda>x. if eq_id (t_id tk) x \<and> t_is_deleted x \<noteq> None
                             then x\<lparr>t_is_deleted := Some True, t_deleted_at := Some client_now,
                                    t_updated_at := Some now\<rparr>
                             else x) (tasks d)\<rparr>"
proof -
  let ?u = "no_columns\<lparr>u_is_deleted := Some True, u_deleted_at := Some (Some client_now)\<rparr>"
  have new: "update_updated_at_column now (set_columns to_date ?u x) =
      x\<lparr>t_is_deleted := Some True, t_deleted_at := Some client_now, t_updated_at := Some now\<rparr>"
    for x
    by (simp add: update_updated_at_column_def set_columns_def no_columns_def)
  have valid: "\<not> invalid_date to_date ?u" and flag: "u_is_deleted ?u = Some True"
    by (simp_all add: invalid_date_def no_columns_def)
  have "update_tasks to_date d uid now True (eq_id (t_id tk)) ?u =
      Inr (d\<lparr>tasks := map (\<lambda>x. if eq_id (t_id tk) x \<and> t_is_deleted x \<noteq> None
                             then update_updated_at_column now (set_columns to_date ?u x) else x)
                        (tasks d)\<rparr>)"
    using assms(1) flag valid by (rule admin_update_tasks)
  then show ?thesis
    using assms(2) by (simp add: handleDelete_def new cong: if_cong)
qed

lemma admin_handleRestore:
  assumes "subject_has_role d uid Admin"
  shows "handleRestore to_date d uid now tid =
         d\<lparr>tasks := map (\<lambda>x. if eq_id tid x \<and> t_is_deleted x \<noteq> None
                             then x\<lparr>t_is_deleted := Some False, t_deleted_at := None,
                                    t_updated_at := Some now\<rparr>
                             else x) (tasks d)\<rparr>"
proof -
  let ?u = "no_columns\<lparr>u_is_deleted := Some False, u_deleted_at := Some None\<rparr>"
  have new: "update_updated_at_column now (set_columns to_date ?u x) =
      x\<lparr>t_is_deleted := Some False, t_deleted_at := None, t_updated_at := Some now\<rparr>" for x
    by (simp add: update_updated_at_column_def set_columns_def no_columns_def)
  have valid: "\<not> invalid_date to_date ?u" and flag: "u_is_deleted ?u = Some False"
    by (simp_all add: invalid_date_def no_columns_def)
  have "update_tasks to_date d uid now True (eq_id tid) ?u =
      Inr (d\<lparr>tasks := map (\<lambda>x. if eq_id tid x \<and> t_is_deleted x \<noteq> None
                             then update_updated_at_column now (set_columns to_date ?u x) else x)
                        (tasks d)\<rparr>)"
    using assms(1) flag valid by (rule admin_update_tasks)
  then show ?thesis
    by (simp add: handleRestore_def new cong: if_cong)
qed

lemma task_by_id_after_update:
  assumes "task_by_id d i = Some t" and "h t" and "\<And>x. t_id (g x) = t_id x"
  shows "task_by_id (d\<lparr>tasks := map (\<lambda>x. if h x then g x else x) (tasks d)\<rparr>) i = Some (g t)"
  using assms(1,2) by (simp add: task_by_id_def find_map_keeping_id [of g, OF assms(3)])

lemma task_by_id_member: "pk_tasks d \<Longrightarrow> t \<in> set (tasks d) \<Longrightarrow> task_by_id d (t_id t) = Some t"
  by (simp add: pk_tasks_def task_by_id_def find_by_key)

lemma same_key_same_task:
  "pk_tasks d \<Longrightarrow> x \<in> set (tasks d) \<Longrightarrow> y \<in> set (tasks d) \<Longrightarrow> t_id x = t_id y \<Longrightarrow> x = y"
  by (auto simp add: pk_tasks_def distinct_map dest: inj_onD)

lemma no_non_deleted_parent:
  assumes "pk_tasks d" and "t \<in> set (tasks d)" and "tid = Some (t_id t)"
    and "t_is_deleted t = Some True"
  shows "\<not> exists_non_deleted_task d uid tid"
proof
  assume "exists_non_deleted_task d uid tid"
  then obtain x where x: "x \<in> set (tasks d)" "tid = Some (t_id x)" "t_is_deleted x = Some False"
    by (auto simp add: exists_non_deleted_task_def list_ex_iff)
  with assms(3) have "t_id x = t_id t" by simp
  with assms(1,2) x(1) have "x = t" by (simp add: same_key_same_task)
  with x(3) assms(4) show False by simp
qed

lemma profiles_select_allowed_iff:
  "profiles_select_allowed d uid p = (p_status p = Active \<or> p_id p = uid)"
  by (simp add: profiles_select_allowed_def profiles_select_policies_def permissive_Cons
      permissive_Nil users_can_view_active_profiles_def)

lemma profiles_update_allowed_iff:
  "profiles_update_allowed d uid reads old new =
     ((reads \<longrightarrow> profiles_select_allowed d uid old \<and> profiles_select_allowed d uid new) \<and>
      (p_id old = uid \<or> subject_has_role d uid Admin) \<and>
      (p_id new = uid \<or> subject_has_role d uid Admin))"
  by (auto simp add: profiles_update_allowed_def profiles_update_using_def
      profiles_update_check_def rls_update_using_def rls_update_check_def permissive_Cons
      permissive_Nil profiles_select_allowed_def users_can_update_own_profile_using_def
      users_can_update_own_profile_check_def admins_can_update_any_profile_using_def
      admins_can_update_any_profile_check_def exists_admin_profile_iff)

lemma tasks_update_allowed_iff:
  "tasks_update_allowed d uid reads old new =
     (tasks_update_using d uid reads old \<and> tasks_update_check d uid reads new)"
  by (simp add: tasks_update_allowed_def)

lemma assigned_update_tasks:
  assumes "pk_tasks d" and "t \<in> set (tasks d)" and "t_is_deleted t = Some False"
    and "in_assignee_set d uid (t_id t)" and "\<not> invalid_date to_date u" and "u_is_deleted u = None"
  shows "update_tasks to_date d uid now True (eq_id (t_id t)) u =
         Inr (d\<lparr>tasks := map (\<lambda>x. if eq_id (t_id t) x \<and> tasks_update_using d uid True x
                                   then update_updated_at_column now (set_columns to_date u x) else x)
                              (tasks d)\<rparr>)"
proof -
  have "tasks_update_check d uid True (update_updated_at_column now (set_columns to_date u x))"
    if "x \<in> set (tasks d)" and "eq_id (t_id t) x" for x
  proof -
    from that have "x = t"
      using assms(1,2) by (simp add: eq_id_def same_key_same_task)
    then show ?thesis
      using assms(3,4,6)
      by (simp add: tasks_update_check_iff tasks_select_allowed_iff update_updated_at_column_def
          set_columns_def)
  qed
  then show ?thesis
    using assms(5) by (simp add: update_tasks_def Let_def list_all_iff)
qed

lemma row_with_status_keeps [simp]:
  "p_id (row_with_status s uid p) = p_id p" "p_role (row_with_status s uid p) = p_role p"
  by (simp_all add: row_with_status_def)

lemma with_status_tables [simp]:
  "profiles (with_status s uid d) = map (row_with_status s uid) (profiles d)"
  "tasks (with_status s uid d) = tasks d"
  "task_assignees (with_status s uid d) = task_assignees d"
  "task_comments (with_status s uid d) = task_comments d"
  "task_attachments (with_status s uid d) = task_attachments d"
  by (simp_all add: with_status_def)

lemma with_status_role: "subject_has_role (with_status s uid d) v r = subject_has_role d v r"
  by (simp add: subject_has_role_def list_ex_iff)

lemma with_status_admin: "exists_admin_profile (with_status s uid d) v = exists_admin_profile d v"
  by (simp add: exists_admin_profile_iff with_status_role)

lemma with_status_assignment: "exists_assignment (with_status s uid d) v tid = exists_assignment d v tid"
  by (simp add: exists_assignment_iff in_assignee_set_def)

lemma with_status_tasks_select:
  "tasks_select_allowed (with_status s uid d) v = tasks_select_allowed d v"
  by (rule ext) (simp add: tasks_select_allowed_iff with_status_role)

lemma with_status_non_deleted:
  "exists_non_deleted_task (with_status s uid d) v tid = exists_non_deleted_task d v tid"
  by (simp add: exists_non_deleted_task_def with_status_tasks_select)

lemma with_status_own_row:
  "profiles_select_allowed (with_status s uid d) uid (row_with_status s uid p) =
   profiles_select_allowed d uid p"
  by (simp add: profiles_select_allowed_iff row_with_status_def)

lemmas decision_defs =
  profiles_insert_allowed_def profiles_update_allowed_def profiles_update_using_def
  profiles_update_check_def profiles_delete_allowed_def
  tasks_insert_allowed_def tasks_update_allowed_def tasks_update_using_def
  tasks_update_check_def tasks_delete_allowed_def
  task_assignees_select_allowed_def task_assignees_insert_allowed_def
  task_assignees_update_allowed_def task_assignees_delete_allowed_def
  task_comments_select_allowed_def task_comments_insert_allowed_def
  task_comments_update_allowed_def task_comments_delete_allowed_def
  task_attachments_select_allowed_def task_attachments_insert_allowed_def
  task_attachments_update_allowed_def task_attachments_delete_allowed_def
  rls_insert_def rls_update_using_def rls_update_check_def rls_delete_def
  permissive_Cons permissive_Nil
  profiles_select_policies_def tasks_select_policies_def task_assignees_select_policies_def
  task_comments_select_policies_def task_attachments_select_policies_def

lemmas policy_defs =
  users_can_view_active_profiles_def users_can_update_own_profile_using_def
  users_can_update_own_profile_check_def admins_can_update_any_profile_using_def
  admins_can_update_any_profile_check_def users_can_insert_own_profile_def
  users_can_view_non_deleted_tasks_def users_can_view_deleted_tasks_def
  admins_can_create_tasks_def admins_can_update_any_task_using_def
  admins_can_update_any_task_check_def users_can_view_task_assignments_def
  employees_can_update_assigned_task_status_using_def
  employees_can_update_assigned_task_status_check_def
  admins_can_create_task_assignments_def admins_can_delete_task_assignments_def
  users_can_view_comments_def users_can_create_comments_def
  users_can_update_own_comments_using_def users_can_update_own_comments_check_def
  users_can_delete_own_comments_def users_can_view_attachments_def
  users_can_upload_attachments_def users_can_delete_own_attachments_def
  admins_can_delete_any_attachment_def

lemma with_status_authorize:
  "authorize (with_status s uid d) uid reads (request_with_status s uid q) =
   authorize d uid reads q"
proof (cases q)
  case (Profiles_select p)
  then show ?thesis by (simp add: with_status_own_row)
next
  case (Profiles_insert p)
  then show ?thesis
    by (simp add: decision_defs policy_defs) (simp add: row_with_status_def)
next
  case (Profiles_update p p')
  then show ?thesis
    by (simp add: decision_defs policy_defs with_status_admin) (simp add: row_with_status_def)
next
  case (Profiles_delete p)
  then show ?thesis by (simp add: decision_defs)
qed (simp_all add: decision_defs policy_defs with_status_admin with_status_assignment
    with_status_tasks_select with_status_non_deleted
    tasks_select_allowed_def [symmetric, unfolded tasks_select_policies_def permissive_Cons permissive_Nil])

section \<open>Properties\<close>

subsection \<open>Visibility of tasks\<close>

text \<open>
  Claim C1. A task row with \<open>is_deleted = true\<close> is shown by \<open>SELECT\<close> to a subject
  exactly when the subject's role is admin: it is denied to every subject whose role is
  not admin and allowed to every admin. A task row with \<open>is_deleted = false\<close> is shown
  to every authenticated subject.
\<close>

theorem deleted_tasks_visible_to_admins_only:
  "(t_is_deleted t = Some True \<longrightarrow>
      tasks_select_allowed d uid t = subject_has_role d uid Admin) \<and>
   (t_is_deleted t = Some False \<longrightarrow> tasks_select_allowed d uid t)"
  by (simp add: tasks_select_allowed_iff)

theorem deleted_tasks_visible_to_admins_only_witness:
  "t_is_deleted trashed_task = Some True \<and> subject_has_role example_db ''adm'' Admin \<and>
   tasks_select_allowed example_db ''adm'' trashed_task \<and>
   \<not> subject_has_role example_db ''empA'' Admin \<and>
   \<not> tasks_select_allowed example_db ''empA'' trashed_task \<and>
   t_is_deleted report_task = Some False \<and>
   tasks_select_allowed example_db ''empA'' report_task"
  using deleted_tasks_visible_to_admins_only [of trashed_task example_db "''adm''"]
    deleted_tasks_visible_to_admins_only [of trashed_task example_db "''empA''"]
    deleted_tasks_visible_to_admins_only [of report_task example_db "''empA''"]
  by (simp add: example_defs subject_has_role_def)

subsection \<open>Updates of tasks by employees\<close>

text \<open>
  Claim C4. When the subject is not an admin and is not in the assignee set of a task,
  no update of that task's row is allowed to it, whatever the new row, and the statement
  \<open>UPDATE tasks SET ... WHERE id = ...\<close> it sends for that task changes nothing: the row
  is passed over (no row is updated and the database is the same), or the statement
  fails on its payload before touching any row.
\<close>

theorem unassigned_employee_update_rejected:
  assumes "\<not> subject_has_role d uid Admin" and "\<not> in_assignee_set d uid (t_id t)"
  shows "\<not> tasks_update_allowed d uid reads t new \<and>
         update_tasks to_date d uid now reads (eq_id (t_id t)) u =
           (if invalid_date to_date u then Inl Invalid_date_syntax else Inr d)"
proof -
  have no: "\<not> (eq_id (t_id t) x \<and> tasks_update_using d uid reads x)" for x
    using assms by (auto simp add: eq_id_def tasks_update_using_iff)
  have "\<not> tasks_update_allowed d uid reads t new"
    using assms by (simp add: tasks_update_allowed_def tasks_update_using_iff)
  moreover have "update_tasks to_date d uid now reads (eq_id (t_id t)) u =
           (if invalid_date to_date u then Inl Invalid_date_syntax else Inr d)"
    by (simp add: update_tasks_def Let_def no list_all_iff)
  ultimately show ?thesis by simp
qed

theorem unassigned_employee_update_rejected_witness:
  "\<not> subject_has_role example_db ''empB'' Admin \<and>
   \<not> in_assignee_set example_db ''empB'' (t_id report_task) \<and>
   \<not> tasks_update_allowed example_db ''empB'' True report_task
       (report_task\<lparr>t_status := In_progress\<rparr>) \<and>
   update_tasks example_to_date example_db ''empB'' 30 True (eq_id ''t1'')
     (no_columns\<lparr>u_status := Some In_progress\<rparr>) = Inr example_db"
proof -
  have adm: "\<not> subject_has_role example_db ''empB'' Admin"
    by (simp add: example_defs subject_has_role_def)
  have asg: "\<not> in_assignee_set example_db ''empB'' (t_id report_task)"
    by (simp add: example_defs in_assignee_set_def)
  have id: "t_id report_task = ''t1''"
    by (simp add: report_task_def)
  have dt: "\<not> invalid_date example_to_date (no_columns\<lparr>u_status := Some In_progress\<rparr>)"
    by (simp add: invalid_date_def no_columns_def)
  from unassigned_employee_update_rejected [OF adm asg, where reads = True
      and new = "report_task\<lparr>t_status := In_progress\<rparr>" and to_date = example_to_date
      and now = 30 and u = "no_columns\<lparr>u_status := Some In_progress\<rparr>"]
  show ?thesis using adm asg by (simp add: id dt)
qed

text \<open>
  Claim C7. When the subject is not an admin, every update of a task row that the
  policies allow is one of a row the subject is assigned to, with \<open>is_deleted = false\<close>
  before and after; and every \<open>UPDATE\<close> statement on \<open>tasks\<close> that succeeds for such a
  subject leaves the \<open>is_deleted\<close> column of every row as it was, so no task goes from
  not deleted to deleted on this path.
\<close>

theorem employee_update_keeps_not_deleted:
  assumes "\<not> subject_has_role d uid Admin"
  shows "(tasks_update_allowed d uid reads old new \<longrightarrow>
            in_assignee_set d uid (t_id old) \<and> t_is_deleted old = Some False \<and>
            t_is_deleted new = Some False) \<and>
         (update_tasks to_date d uid now reads wh u = Inr d' \<longrightarrow>
            map t_is_deleted (tasks d') = map t_is_deleted (tasks d))"
proof (intro conjI impI)
  assume "tasks_update_allowed d uid reads old new"
  with assms show "in_assignee_set d uid (t_id old)" "t_is_deleted old = Some False"
    "t_is_deleted new = Some False"
    by (simp_all add: tasks_update_allowed_def tasks_update_using_iff tasks_update_check_iff)
next
  let ?hit = "\<lambda>t. wh t \<and> tasks_update_using d uid reads t"
  let ?new = "\<lambda>t. update_updated_at_column now (set_columns to_date u t)"
  assume run: "update_tasks to_date d uid now reads wh u = Inr d'"
  then have chk: "list_all (\<lambda>t. ?hit t \<longrightarrow> tasks_update_check d uid reads (?new t)) (tasks d)"
    and d': "d' = d\<lparr>tasks := map (\<lambda>t. if ?hit t then ?new t else t) (tasks d)\<rparr>"
    by (auto simp add: update_tasks_def Let_def split: if_splits)
  have "t_is_deleted (if ?hit t then ?new t else t) = t_is_deleted t" if "t \<in> set (tasks d)" for t
  proof (cases "?hit t")
    case True
    with chk that have "tasks_update_check d uid reads (?new t)"
      by (auto simp add: list_all_iff)
    with assms have "t_is_deleted (?new t) = Some False"
      by (simp add: tasks_update_check_iff)
    moreover from True assms have "t_is_deleted t = Some False"
      by (simp add: tasks_update_using_iff)
    ultimately show ?thesis using True by simp
  next
    case False
    then show ?thesis by auto
  qed
  then show "map t_is_deleted (tasks d') = map t_is_deleted (tasks d)"
    by (simp add: d')
qed

theorem employee_update_keeps_not_deleted_witness:
  "\<not> subject_has_role example_db ''empA'' Admin \<and>
   tasks_update_allowed example_db ''empA'' True report_task (report_task\<lparr>t_status := Done\<rparr>) \<and>
   t_is_deleted (report_task\<lparr>t_status := Done\<rparr>) = Some False \<and>
   \<not> tasks_update_allowed example_db ''empA'' True report_task
       (report_task\<lparr>t_is_deleted := Some True\<rparr>) \<and>
   update_tasks example_to_date example_db ''empA'' 30 True (eq_id ''t1'') (no_columns\<lparr>u_status := Some Done\<rparr>) =
     Inr (example_db\<lparr>tasks := [report_task\<lparr>t_status := Done, t_updated_at := Some 30\<rparr>,
                                trashed_task]\<rparr>) \<and>
   map t_is_deleted [report_task\<lparr>t_status := Done, t_updated_at := Some 30\<rparr>, trashed_task] =
     map t_is_deleted (tasks example_db)"
proof -
  have adm: "\<not> subject_has_role example_db ''empA'' Admin"
    by (simp add: example_defs subject_has_role_def)
  have ok: "tasks_update_allowed example_db ''empA'' True report_task
              (report_task\<lparr>t_status := Done\<rparr>)"
    by (simp add: tasks_update_allowed_def tasks_update_using_iff tasks_update_check_iff
        tasks_select_allowed_iff in_assignee_set_def example_defs)
  have run: "update_tasks example_to_date example_db ''empA'' 30 True (eq_id ''t1'')
               (no_columns\<lparr>u_status := Some Done\<rparr>) =
             Inr (example_db\<lparr>tasks := [report_task\<lparr>t_status := Done, t_updated_at := Some 30\<rparr>,
                                        trashed_task]\<rparr>)"
    by (simp add: update_tasks_def Let_def invalid_date_def no_columns_def eq_id_def
        tasks_update_using_iff tasks_update_check_iff tasks_select_allowed_iff
        in_assignee_set_def subject_has_role_def set_columns_def update_updated_at_column_def
        example_defs)
  from employee_update_keeps_not_deleted [OF adm, where reads = True and old = report_task
      and new = "report_task\<lparr>t_status := Done\<rparr>" and to_date = example_to_date and now = 30
      and wh = "eq_id ''t1''" and u = "no_columns\<lparr>u_status := Some Done\<rparr>"
      and d' = "example_db\<lparr>tasks := [report_task\<lparr>t_status := Done, t_updated_at := Some 30\<rparr>,
                                        trashed_task]\<rparr>"]
    employee_update_keeps_not_deleted [OF adm, where reads = True and old = report_task
      and new = "report_task\<lparr>t_is_deleted := Some True\<rparr>"]
  show ?thesis using adm ok run by auto
qed

subsection \<open>Permanent deletion\<close>

text \<open>
  Claim C5. The claim has an admin allowed to delete the row of a task that is already
  in the trash. No \<open>DELETE\<close> policy is declared on \<open>tasks\<close>, so the decision is deny
  for the admin as well, and \<open>handlePermanentDelete\<close> run by an admin on a task in the
  trash leaves the database as it was: the row is still there.
\<close>

theorem admin_purge_of_trashed_task_denied:
  "subject_has_role example_db ''adm'' Admin \<and> t_is_deleted trashed_task = Some True \<and>
   task_by_id example_db ''t2'' = Some trashed_task \<and>
   \<not> tasks_delete_allowed example_db ''adm'' True trashed_task \<and>
   handlePermanentDelete example_db ''adm'' ''t2'' True = example_db"
  by (simp add: handlePermanentDelete_def delete_tasks_def Let_def tasks_delete_allowed_never
      refers_to_def task_by_id_def subject_has_role_def example_defs)

subsection \<open>Soft delete and restore\<close>

text \<open>
  Claim C6. Let an admin, whom the client also knows as admin, act on a task whose
  \<open>is_deleted\<close> is not null. \<open>handleDelete\<close>, once confirmed, leaves the task's row with
  \<open>is_deleted = true\<close> and \<open>deleted_at\<close> set to the client's current time, which is not
  null. \<open>handleRestore\<close> leaves it with \<open>is_deleted = false\<close> and \<open>deleted_at\<close> null.
  Restoring the task that was just soft-deleted leaves the row with both deletion
  fields cleared and every other column as it was before the soft delete, but for
  \<open>updated_at\<close>, which the trigger sets on every update.
\<close>

theorem soft_delete_then_restore:
  assumes "pk_tasks d" and "t \<in> set (tasks d)" and "t_is_deleted t \<noteq> None"
    and "subject_has_role d uid Admin" and "isAdmin profile" and "t_id tk = t_id t"
  shows "task_by_id (handleDelete to_date d uid now profile (Some tk) True client_now) (t_id t) =
           Some (t\<lparr>t_is_deleted := Some True, t_deleted_at := Some client_now,
                   t_updated_at := Some now\<rparr>) \<and>
         task_by_id (handleRestore to_date d uid now (t_id t)) (t_id t) =
           Some (t\<lparr>t_is_deleted := Some False, t_deleted_at := None,
                   t_updated_at := Some now\<rparr>) \<and>
         task_by_id (handleRestore to_date (handleDelete to_date d uid now profile (Some tk) True client_now)
                       uid later (t_id t)) (t_id t) =
           Some (t\<lparr>t_is_deleted := Some False, t_deleted_at := None,
                   t_updated_at := Some later\<rparr>)"
proof -
  let ?d1 = "handleDelete to_date d uid now profile (Some tk) True client_now"
  let ?t1 = "t\<lparr>t_is_deleted := Some True, t_deleted_at := Some client_now,
               t_updated_at := Some now\<rparr>"
  have look: "task_by_id d (t_id t) = Some t"
    using assms(1,2) by (rule task_by_id_member)
  have hit: "eq_id (t_id t) t \<and> t_is_deleted t \<noteq> None"
    using assms(3) by (simp add: eq_id_def)
  have row1: "task_by_id ?d1 (t_id t) = Some ?t1"
    unfolding admin_handleDelete [OF assms(4,5)] assms(6)
    using look hit by (rule task_by_id_after_update) simp
  have row2: "task_by_id (handleRestore to_date d uid now (t_id t)) (t_id t) =
      Some (t\<lparr>t_is_deleted := Some False, t_deleted_at := None, t_updated_at := Some now\<rparr>)"
    unfolding admin_handleRestore [OF assms(4)]
    using look hit by (rule task_by_id_after_update) simp
  have adm1: "subject_has_role ?d1 uid Admin"
    using assms(4) by (simp add: admin_handleDelete [OF assms(4,5)] subject_has_role_def)
  have hit1: "eq_id (t_id t) ?t1 \<and> t_is_deleted ?t1 \<noteq> None"
    by (simp add: eq_id_def)
  have "task_by_id (handleRestore to_date ?d1 uid later (t_id t)) (t_id t) =
      Some (?t1\<lparr>t_is_deleted := Some False, t_deleted_at := None, t_updated_at := Some later\<rparr>)"
    unfolding admin_handleRestore [OF adm1]
    using row1 hit1 by (rule task_by_id_after_update) simp
  then have row3: "task_by_id (handleRestore to_date ?d1 uid later (t_id t)) (t_id t) =
      Some (t\<lparr>t_is_deleted := Some False, t_deleted_at := None, t_updated_at := Some later\<rparr>)"
    by simp
  show ?thesis using row1 row2 row3 by simp
qed

theorem soft_delete_then_restore_witness:
  "task_by_id (handleDelete example_to_date example_db ''adm'' 30 (Some the_admin)
       (Some (task.extend report_task \<lparr>tw_assignees = [employeeA], tw_comments_count = 1\<rparr>))
       True 29) ''t1'' =
     Some (report_task\<lparr>t_is_deleted := Some True, t_deleted_at := Some 29,
                       t_updated_at := Some 30\<rparr>) \<and>
   task_by_id (handleRestore example_to_date example_db ''adm'' 30 ''t1'') ''t1'' =
     Some (report_task\<lparr>t_updated_at := Some 30\<rparr>) \<and>
   task_by_id (handleRestore example_to_date (handleDelete example_to_date example_db ''adm'' 30 (Some the_admin)
       (Some (task.extend report_task \<lparr>tw_assignees = [employeeA], tw_comments_count = 1\<rparr>))
       True 29) ''adm'' 40 ''t1'') ''t1'' =
     Some (report_task\<lparr>t_updated_at := Some 40\<rparr>)"
proof -
  have pk: "pk_tasks example_db"
    by (simp add: pk_tasks_def example_defs)
  have mem: "report_task \<in> set (tasks example_db)"
    by (simp add: example_db_def)
  have live: "t_is_deleted report_task \<noteq> None"
    by (simp add: report_task_def)
  have adm: "subject_has_role example_db ''adm'' Admin"
    by (simp add: subject_has_role_def example_defs)
  have cl: "isAdmin (Some the_admin)"
    by (simp add: isAdmin_def the_admin_def)
  have tk: "t_id (task.extend report_task \<lparr>tw_assignees = [employeeA], tw_comments_count = 1\<rparr>) =
      t_id report_task"
    by (simp add: task.extend_def report_task_def)
  have id: "t_id report_task = ''t1''"
    by (simp add: report_task_def)
  have same: "report_task\<lparr>t_is_deleted := Some False, t_deleted_at := None, t_updated_at := x\<rparr> =
      report_task\<lparr>t_updated_at := x\<rparr>" for x
    by (simp add: report_task_def)
  from soft_delete_then_restore [OF pk mem live adm cl tk, where to_date = example_to_date
      and now = 30 and client_now = 29 and later = 40]
  show ?thesis by (simp add: id same)
qed

subsection \<open>Provisioning of profiles\<close>

text \<open>
  Claim C8. When \<open>handle_new_user\<close> succeeds for a new account, it has appended exactly
  one row to \<open>profiles\<close> and touched nothing else: the row has the account's id, role
  employee, status active, and as username the account's email when there is one and
  otherwise \<open>user_\<close> followed by the account's id; it is the only profile with that id.
  It succeeds whenever neither that id nor that username is taken already; when one is,
  the insert of the account is aborted, so no account is created.
\<close>

theorem new_account_gets_one_employee_profile:
  "(au_id new \<notin> set (map p_id (profiles d)) \<and>
    coalesce (au_email new) (''user_'' @ au_id new) \<notin> set (map p_username (profiles d)) \<longrightarrow>
      (\<exists>d'. handle_new_user d now new = Inr d')) \<and>
   (handle_new_user d now new = Inr d' \<longrightarrow>
      (\<exists>p. profiles d' = profiles d @ [p] \<and> p_id p = au_id new \<and>
           p_role p = Employee \<and> p_status p = Active \<and>
           p_username p = (case au_email new of Some e \<Rightarrow> e | None \<Rightarrow> ''user_'' @ au_id new)) \<and>
      length (filter (\<lambda>p. p_id p = au_id new) (profiles d')) = 1 \<and>
      tasks d' = tasks d \<and> task_assignees d' = task_assignees d \<and>
      task_comments d' = task_comments d \<and> task_attachments d' = task_attachments d)"
proof (intro conjI impI)
  assume "handle_new_user d now new = Inr d'"
  then have fresh: "au_id new \<notin> set (map p_id (profiles d))"
    and d': "d' = d\<lparr>profiles := profiles d @
        [\<lparr>p_id = au_id new, p_username = coalesce (au_email new) (''user_'' @ au_id new),
          p_role = Employee, p_status = Active, p_created_at = Some now,
          p_updated_at = Some now\<rparr>]\<rparr>"
    by (auto simp add: handle_new_user_def Let_def split: if_splits)
  from fresh have none: "filter (\<lambda>p. p_id p = au_id new) (profiles d) = []"
    by (force simp add: filter_empty_conv)
  show "\<exists>p. profiles d' = profiles d @ [p] \<and> p_id p = au_id new \<and>
           p_role p = Employee \<and> p_status p = Active \<and>
           p_username p = (case au_email new of Some e \<Rightarrow> e | None \<Rightarrow> ''user_'' @ au_id new)"
    by (simp add: d' coalesce_def split: option.split)
  show "length (filter (\<lambda>p. p_id p = au_id new) (profiles d')) = 1"
    by (simp add: d' none)
  show "tasks d' = tasks d" "task_assignees d' = task_assignees d"
    "task_comments d' = task_comments d" "task_attachments d' = task_attachments d"
    by (simp_all add: d')
qed (simp add: handle_new_user_def Let_def)

theorem new_account_gets_one_employee_profile_witness:
  "handle_new_user example_db 40 \<lparr>au_id = ''u9'', au_email = Some ''new@example.com''\<rparr> =
     Inr (example_db\<lparr>profiles := profiles example_db @
       [\<lparr>p_id = ''u9'', p_username = ''new@example.com'', p_role = Employee, p_status = Active,
         p_created_at = Some 40, p_updated_at = Some 40\<rparr>]\<rparr>) \<and>
   length (filter (\<lambda>p. p_id p = ''u9'') (profiles example_db @
       [\<lparr>p_id = ''u9'', p_username = ''new@example.com'', p_role = Employee, p_status = Active,
         p_created_at = Some 40, p_updated_at = Some 40\<rparr>])) = 1 \<and>
   handle_new_user example_db 40 \<lparr>au_id = ''u9'', au_email = None\<rparr> =
     Inr (example_db\<lparr>profiles := profiles example_db @
       [\<lparr>p_id = ''u9'', p_username = ''user_u9'', p_role = Employee, p_status = Active,
         p_created_at = Some 40, p_updated_at = Some 40\<rparr>]\<rparr>)"
proof -
  let ?with = "\<lparr>au_id = ''u9'', au_email = Some ''new@example.com''\<rparr>"
  let ?d' = "example_db\<lparr>profiles := profiles example_db @
       [\<lparr>p_id = ''u9'', p_username = ''new@example.com'', p_role = Employee, p_status = Active,
         p_created_at = Some 40, p_updated_at = Some 40\<rparr>]\<rparr>"
  have run: "handle_new_user example_db 40 ?with = Inr ?d'"
    by (simp add: handle_new_user_def Let_def coalesce_def example_defs)
  have run2: "handle_new_user example_db 40 \<lparr>au_id = ''u9'', au_email = None\<rparr> =
     Inr (example_db\<lparr>profiles := profiles example_db @
       [\<lparr>p_id = ''u9'', p_username = ''user_u9'', p_role = Employee, p_status = Active,
         p_created_at = Some 40, p_updated_at = Some 40\<rparr>]\<rparr>)"
    by (simp add: handle_new_user_def Let_def coalesce_def example_defs)
  from new_account_gets_one_employee_profile [of ?with example_db 40 ?d']
  show ?thesis using run run2 by simp
qed

subsection \<open>Comments of a task in the trash\<close>

text \<open>
  Claim C2. Let the parent task of a comment have \<open>is_deleted = true\<close>. Then each of
  the four operations on that comment is denied to every subject, its author included:
  reading it, creating it, updating it and deleting it. An update or a delete of that
  comment is a statement that picks the comment out by its columns (a \<open>WHERE\<close> clause,
  as every client call has), so it reads the table and the \<open>SELECT\<close> policy applies to
  the row besides the \<open>UPDATE\<close> or \<open>DELETE\<close> policy; creating it is denied whether or
  not the statement returns the row.
\<close>

theorem comments_of_deleted_task:
  assumes "pk_tasks d" and "t \<in> set (tasks d)" and "c_task_id c = Some (t_id t)"
    and "t_is_deleted t = Some True"
  shows "\<not> task_comments_select_allowed d uid c \<and>
         \<not> task_comments_insert_allowed d uid reads c \<and>
         \<not> task_comments_update_allowed d uid True c c' \<and>
         \<not> task_comments_delete_allowed d uid True c"
proof -
  have hidden: "\<not> exists_non_deleted_task d uid (c_task_id c)"
    using assms by (rule no_non_deleted_parent)
  then have unseen: "\<not> task_comments_select_allowed d uid c"
    by (simp add: task_comments_select_allowed_def task_comments_select_policies_def
        permissive_Cons permissive_Nil users_can_view_comments_def)
  have "\<not> task_comments_insert_allowed d uid reads c"
    using hidden
    by (simp add: task_comments_insert_allowed_def rls_insert_def permissive_Cons permissive_Nil
        users_can_create_comments_def)
  moreover have "\<not> task_comments_update_allowed d uid True c c'"
    using unseen
    by (simp add: task_comments_update_allowed_def rls_update_using_def
        task_comments_select_allowed_def)
  moreover have "\<not> task_comments_delete_allowed d uid True c"
    using unseen
    by (simp add: task_comments_delete_allowed_def rls_delete_def
        task_comments_select_allowed_def)
  ultimately show ?thesis using unseen by simp
qed

theorem comments_of_deleted_task_witness:
  "c_user_id buried_comment = Some ''empA'' \<and>
   \<not> task_comments_select_allowed example_db ''empA'' buried_comment \<and>
   \<not> task_comments_insert_allowed example_db ''empA'' False buried_comment \<and>
   \<not> task_comments_update_allowed example_db ''empA'' True buried_comment
       (buried_comment\<lparr>c_content := ''edited''\<rparr>) \<and>
   \<not> task_comments_delete_allowed example_db ''empA'' True buried_comment \<and>
   \<not> task_comments_select_allowed example_db ''adm'' buried_comment \<and>
   \<not> task_comments_delete_allowed example_db ''adm'' True buried_comment"
proof -
  have pk: "pk_tasks example_db"
    by (simp add: pk_tasks_def example_defs)
  have mem: "trashed_task \<in> set (tasks example_db)"
    by (simp add: example_db_def)
  have par: "c_task_id buried_comment = Some (t_id trashed_task)"
    by (simp add: buried_comment_def trashed_task_def)
  have del: "t_is_deleted trashed_task = Some True"
    by (simp add: trashed_task_def)
  from comments_of_deleted_task [OF pk mem par del, where uid = "''empA''" and reads = False
      and c' = "buried_comment\<lparr>c_content := ''edited''\<rparr>"]
    comments_of_deleted_task [OF pk mem par del, where uid = "''adm''"]
  show ?thesis by (simp add: buried_comment_def)
qed

subsection \<open>Updates of profiles\<close>

text \<open>
  What holds of claim C9: a subject whose role is not admin is allowed to change the
  username of its own profile, and is allowed no update of the profile of another
  subject.
\<close>

lemma non_admin_profile_updates:
  assumes "\<not> subject_has_role d uid Admin"
  shows "(p_id p = uid \<longrightarrow> profiles_update_allowed d uid reads p (p\<lparr>p_username := name\<rparr>)) \<and>
         (p_id p \<noteq> uid \<longrightarrow> \<not> profiles_update_allowed d uid reads p new)"
  using assms by (auto simp add: profiles_update_allowed_iff profiles_select_allowed_iff)

lemma non_admin_profile_updates_example:
  "\<not> subject_has_role example_db ''empA'' Admin \<and>
   profiles_update_allowed example_db ''empA'' True employeeA
     (employeeA\<lparr>p_username := ''alice''\<rparr>) \<and>
   \<not> profiles_update_allowed example_db ''empA'' True employeeB
       (employeeB\<lparr>p_status := Active\<rparr>) \<and>
   \<not> profiles_update_allowed example_db ''empA'' True the_admin
       (the_admin\<lparr>p_role := Employee\<rparr>)"
proof -
  have adm: "\<not> subject_has_role example_db ''empA'' Admin"
    by (simp add: subject_has_role_def example_defs)
  from non_admin_profile_updates [OF adm, where p = employeeA and reads = True
      and name = "''alice''"]
    non_admin_profile_updates [OF adm, where p = employeeB and reads = True
      and new = "employeeB\<lparr>p_status := Active\<rparr>"]
    non_admin_profile_updates [OF adm, where p = the_admin and reads = True
      and new = "the_admin\<lparr>p_role := Employee\<rparr>"]
  show ?thesis using adm by (simp add: example_defs)
qed

text \<open>
  Claim C9. The claim has the role and the status of a profile unchanged by every
  update that a subject whose role is not admin makes of its own profile. The policy
  \<open>Users can update own profile\<close> tests the \<open>id\<close> of the row only: employee \<open>empA\<close>
  is allowed \<open>UPDATE profiles SET role = 'admin', status = 'disabled' WHERE id = 'empA'\<close>
  on its own profile, and both fields change.
\<close>

theorem employee_makes_itself_admin:
  "\<not> subject_has_role example_db ''empA'' Admin \<and> p_id employeeA = ''empA'' \<and>
   profiles_update_allowed example_db ''empA'' True employeeA
     (employeeA\<lparr>p_role := Admin, p_status := Disabled\<rparr>) \<and>
   p_role (employeeA\<lparr>p_role := Admin, p_status := Disabled\<rparr>) \<noteq> p_role employeeA \<and>
   p_status (employeeA\<lparr>p_role := Admin, p_status := Disabled\<rparr>) \<noteq> p_status employeeA"
  by (simp add: profiles_update_allowed_iff profiles_select_allowed_iff subject_has_role_def
      example_defs)

subsection \<open>Updates of a task by an assigned employee\<close>

text \<open>
  What holds of claim C3. Let a task be not deleted and let the subject be in its
  assignee set and not an admin. An update that sets the status to any of the three
  values, whatever the status was, is allowed. No insert, update or delete of an
  assignment is allowed to that subject, so it cannot change the assignee set. And
  through the client the other fields stay: for a profile that is not admin,
  \<open>handleSubmit\<close> sends the status of the form and nothing else, so the row keeps its
  title, priority, due date, category and tags (only \<open>updated_at\<close> moves with the
  trigger), and the assignments are not touched.
\<close>

lemma assigned_employee_status_update:
  assumes "pk_tasks d" and "t \<in> set (tasks d)" and "t_is_deleted t = Some False"
    and "in_assignee_set d uid (t_id t)" and "\<not> subject_has_role d uid Admin"
  shows "tasks_update_allowed d uid reads t (t\<lparr>t_status := s\<rparr>) \<and>
         \<not> task_assignees_insert_allowed d uid reads a \<and>
         \<not> task_assignees_update_allowed d uid reads a a' \<and>
         \<not> task_assignees_delete_allowed d uid reads a \<and>
         (\<not> isAdmin (Some pr) \<and> canUpdate pr tk \<and> t_id tk = t_id t \<longrightarrow>
            (\<exists>d'. handleSubmit to_date d uid now later gen (Some pr) tk fd = (Saved, d') \<and>
                  task_by_id d' (t_id t) =
                    Some (t\<lparr>t_status := fd_status fd, t_updated_at := Some now\<rparr>) \<and>
                  task_assignees d' = task_assignees d \<and> profiles d' = profiles d \<and>
                  task_comments d' = task_comments d \<and>
                  task_attachments d' = task_attachments d))"
proof (intro conjI impI)
  show "tasks_update_allowed d uid reads t (t\<lparr>t_status := s\<rparr>)"
    using assms(3,4)
    by (simp add: tasks_update_allowed_iff tasks_update_using_iff tasks_update_check_iff
        tasks_select_allowed_iff)
  show "\<not> task_assignees_insert_allowed d uid reads a"
    using assms(5)
    by (simp add: task_assignees_insert_allowed_def rls_insert_def permissive_Cons permissive_Nil
        admins_can_create_task_assignments_def exists_admin_profile_iff)
  show "\<not> task_assignees_update_allowed d uid reads a a'"
    by (simp add: task_assignees_update_allowed_def rls_update_using_def permissive_Nil)
  show "\<not> task_assignees_delete_allowed d uid reads a"
    using assms(5)
    by (simp add: task_assignees_delete_allowed_def rls_delete_def permissive_Cons permissive_Nil
        admins_can_delete_task_assignments_def exists_admin_profile_iff)
next
  assume client: "\<not> isAdmin (Some pr) \<and> canUpdate pr tk \<and> t_id tk = t_id t"
  let ?u = "no_columns\<lparr>u_status := Some (fd_status fd)\<rparr>"
  let ?hit = "\<lambda>x. eq_id (t_id t) x \<and> tasks_update_using d uid True x"
  let ?new = "\<lambda>x. update_updated_at_column now (set_columns to_date ?u x)"
  let ?d' = "d\<lparr>tasks := map (\<lambda>x. if ?hit x then ?new x else x) (tasks d)\<rparr>"
  have payload: "updateData pr fd = ?u"
    using client by (simp add: updateData_def)
  have "\<not> invalid_date to_date ?u" and "u_is_deleted ?u = None"
    by (simp_all add: invalid_date_def no_columns_def)
  with assms(1-4) have run: "update_tasks to_date d uid now True (eq_id (t_id t)) ?u = Inr ?d'"
    by (rule assigned_update_tasks)
  have submit: "handleSubmit to_date d uid now later gen (Some pr) tk fd = (Saved, ?d')"
    using client by (simp add: handleSubmit_def payload run)
  have look: "task_by_id d (t_id t) = Some t"
    using assms(1,2) by (rule task_by_id_member)
  have hit: "?hit t"
    using assms(3,4) by (simp add: eq_id_def tasks_update_using_iff tasks_select_allowed_iff)
  have "task_by_id ?d' (t_id t) = Some (?new t)"
    using look hit by (rule task_by_id_after_update) (rule t_id_new_row)
  then have row: "task_by_id ?d' (t_id t) =
      Some (t\<lparr>t_status := fd_status fd, t_updated_at := Some now\<rparr>)"
    by (simp add: update_updated_at_column_def set_columns_def no_columns_def)
  show "\<exists>d'. handleSubmit to_date d uid now later gen (Some pr) tk fd = (Saved, d') \<and>
                  task_by_id d' (t_id t) =
                    Some (t\<lparr>t_status := fd_status fd, t_updated_at := Some now\<rparr>) \<and>
                  task_assignees d' = task_assignees d \<and> profiles d' = profiles d \<and>
                  task_comments d' = task_comments d \<and>
                  task_attachments d' = task_attachments d"
    using submit row by (intro exI [of _ ?d']) simp
qed

lemma assigned_employee_status_update_example:
  "tasks_update_allowed example_db ''empA'' True report_task (report_task\<lparr>t_status := Done\<rparr>) \<and>
   (\<exists>d'. handleSubmit example_to_date example_db ''empA'' 30 31 (\<lambda>n. ''fresh'') (Some employeeA)
            (task.extend report_task \<lparr>tw_assignees = [employeeA], tw_comments_count = 1\<rparr>)
            \<lparr>fd_title = ''Changed'', fd_description = [], fd_status = In_progress,
             fd_priority = Low, fd_due_date = [], fd_category = Personal, fd_tags = [],
             fd_assignees = []\<rparr> = (Saved, d') \<and>
          task_by_id d' ''t1'' =
            Some (report_task\<lparr>t_status := In_progress, t_updated_at := Some 30\<rparr>) \<and>
          task_assignees d' = task_assignees example_db)"
proof -
  let ?tk = "task.extend report_task \<lparr>tw_assignees = [employeeA], tw_comments_count = 1\<rparr>"
  have pk: "pk_tasks example_db"
    by (simp add: pk_tasks_def example_defs)
  have mem: "report_task \<in> set (tasks example_db)"
    by (simp add: example_db_def)
  have live: "t_is_deleted report_task = Some False"
    by (simp add: report_task_def)
  have id: "t_id report_task = ''t1''"
    by (simp add: report_task_def)
  have asg: "in_assignee_set example_db ''empA'' (t_id report_task)"
    by (simp add: in_assignee_set_def example_defs)
  have emp: "\<not> subject_has_role example_db ''empA'' Admin"
    by (simp add: subject_has_role_def example_defs)
  have client: "\<not> isAdmin (Some employeeA) \<and> canUpdate employeeA ?tk \<and>
      t_id ?tk = t_id report_task"
    by (simp add: isAdmin_def canUpdate_def task.extend_def example_defs)
  from assigned_employee_status_update [OF pk mem live asg emp,
      where reads = True and s = Done and to_date = example_to_date
        and pr = employeeA and tk = ?tk and now = 30 and later = 31
        and gen = "\<lambda>n. ''fresh''"
        and fd = "\<lparr>fd_title = ''Changed'', fd_description = [], fd_status = In_progress,
          fd_priority = Low, fd_due_date = [], fd_category = Personal, fd_tags = [],
          fd_assignees = []\<rparr>"]
  show ?thesis using client by (auto simp add: id)
qed

text \<open>
  Claim C3. The claim has an update by an employee in the assignee set of a task that
  is not deleted leave title, priority, due date, category and tags as they were, the
  authorization layer permitting that subject no change other than to the status. The
  policy \<open>Employees can update assigned task status\<close> tests the assignment and
  \<open>is_deleted\<close> only: employee \<open>empA\<close>, assigned to task \<open>t1\<close>, is allowed
  \<open>UPDATE tasks SET title = 'Changed', priority = 'low' WHERE id = 't1'\<close>, and the
  statement succeeds and changes both fields.
\<close>

theorem assigned_employee_changes_title:
  "\<not> subject_has_role example_db ''empA'' Admin \<and>
   in_assignee_set example_db ''empA'' (t_id report_task) \<and>
   t_is_deleted report_task = Some False \<and>
   tasks_update_allowed example_db ''empA'' True report_task
     (report_task\<lparr>t_title := ''Changed'', t_priority := Low\<rparr>) \<and>
   t_title (report_task\<lparr>t_title := ''Changed'', t_priority := Low\<rparr>) \<noteq> t_title report_task \<and>
   t_priority (report_task\<lparr>t_title := ''Changed'', t_priority := Low\<rparr>) \<noteq>
     t_priority report_task \<and>
   update_tasks example_to_date example_db ''empA'' 30 True (eq_id ''t1'')
     (no_columns\<lparr>u_title := Some ''Changed'', u_priority := Some Low\<rparr>) =
     Inr (example_db\<lparr>tasks := [report_task\<lparr>t_title := ''Changed'', t_priority := Low,
                                           t_updated_at := Some 30\<rparr>, trashed_task]\<rparr>)"
  by (simp add: update_tasks_def Let_def invalid_date_def no_columns_def eq_id_def
      tasks_update_allowed_iff tasks_update_using_iff tasks_update_check_iff
      tasks_select_allowed_iff in_assignee_set_def subject_has_role_def set_columns_def
      update_updated_at_column_def example_defs)

text \<open>
  The row of task \<open>t1\<close> is one the statement updates, not one it passes over: the
  filter and the \<open>USING\<close> expressions hold of it, and the new row passes the
  \<open>WITH CHECK\<close> expressions.
\<close>

theorem assigned_employee_changes_title_witness:
  "eq_id ''t1'' report_task \<and> tasks_update_using example_db ''empA'' True report_task \<and>
   tasks_update_check example_db ''empA'' True
     (report_task\<lparr>t_title := ''Changed'', t_priority := Low, t_updated_at := Some 30\<rparr>) \<and>
   update_tasks example_to_date example_db ''empA'' 30 True (eq_id ''t1'')
     (no_columns\<lparr>u_title := Some ''Changed'', u_priority := Some Low\<rparr>) =
     Inr (example_db\<lparr>tasks := [report_task\<lparr>t_title := ''Changed'', t_priority := Low,
                                           t_updated_at := Some 30\<rparr>, trashed_task]\<rparr>)"
  using assigned_employee_changes_title
  by (simp add: eq_id_def tasks_update_using_iff tasks_update_check_iff tasks_select_allowed_iff
      in_assignee_set_def example_defs)

subsection \<open>The status of the subject's profile\<close>

text \<open>
  Claim C10. Take any database and any request, and set the status of the subject's
  own profile once to active and once to disabled, everything else being the same.
  The decision of the rule-set for the subject is the same in both, for every table
  and every command. Status matters only to the visibility of a profile to others: a
  subject is shown another subject's profile exactly when that profile is active.
\<close>

theorem decisions_independent_of_subject_status:
  "authorize (with_status Active uid d) uid reads (request_with_status Active uid q) =
     authorize (with_status Disabled uid d) uid reads (request_with_status Disabled uid q) \<and>
   (p_id p \<noteq> v \<longrightarrow> authorize d v reads (Profiles_select p) = (p_status p = Active))"
  by (simp add: with_status_authorize profiles_select_allowed_iff)


theorem decisions_independent_of_subject_status_witness:
  "authorize (with_status Active ''empA'' example_db) ''empA'' True
     (Tasks_update report_task (report_task\<lparr>t_status := Done\<rparr>)) \<and>
   authorize (with_status Disabled ''empA'' example_db) ''empA'' True
     (Tasks_update report_task (report_task\<lparr>t_status := Done\<rparr>)) \<and>
   p_id employeeB \<noteq> ''empA'' \<and> p_status employeeB \<noteq> Active \<and>
   \<not> authorize example_db ''empA'' True (Profiles_select employeeB)"
proof -
  have allowed: "authorize (with_status Active ''empA'' example_db) ''empA'' True
      (Tasks_update report_task (report_task\<lparr>t_status := Done\<rparr>))"
    by (simp add: tasks_update_allowed_iff tasks_update_using_iff tasks_update_check_iff
        tasks_select_allowed_iff in_assignee_set_def example_defs)
  have other: "p_id employeeB \<noteq> ''empA''" "p_status employeeB \<noteq> Active"
    by (simp_all add: employeeB_def)
  from decisions_independent_of_subject_status [of "''empA''" example_db True
      "Tasks_update report_task (report_task\<lparr>t_status := Done\<rparr>)" employeeB "''empA''"]
  show ?thesis using allowed other by simp
qed

end
